theory Spec2Isabelle
  imports Main "HOL-Library.Word" "HOL-Library.Signed_Division"
begin

section \<open>Machine integers, identifiers and faults\<close>

text \<open>
  The C code works on \<^verbatim>\<open>uint32_t\<close>, \<^verbatim>\<open>int32_t\<close> and \<^verbatim>\<open>int\<close>
  (32 bits on every platform wlroots builds for).  All three are 32-bit words
  here: a conversion between the signed and the unsigned view keeps the bits, and the
  comparison \<^verbatim>\<open>a < b\<close> on \<^verbatim>\<open>uint32_t\<close> is the unsigned order of
  words.  Signed arithmetic wraps around (two's complement); the quotient of the C
  operator \<^verbatim>\<open>/\<close> truncates towards zero.
\<close>

type_synonym uint32_t = "32 word"
type_synonym int32_t = "32 word"

definition int32_div :: "int32_t \<Rightarrow> int32_t \<Rightarrow> int32_t" where
  "int32_div a b = word_of_int (sint a sdiv sint b)"

text \<open>Pointers to objects of the shell are identifiers resolved through stores.\<close>

type_synonym surface_id = nat
type_synonym client_id = nat
type_synonym seat_id = nat

text \<open>
  A run of C code either returns or stops in a fault: a failed \<^verbatim>\<open>assert\<close>, or the
  dereference of a pointer that is \<^verbatim>\<open>NULL\<close> or names an object that is gone.
\<close>

datatype fault = Assertion_failed | Invalid_pointer

section \<open>Data model\<close>

record wlr_box =
  box_x :: int32_t
  box_y :: int32_t
  box_width :: int32_t
  box_height :: int32_t

datatype xdg_positioner_anchor =
    XDG_POSITIONER_ANCHOR_NONE
  | XDG_POSITIONER_ANCHOR_TOP
  | XDG_POSITIONER_ANCHOR_BOTTOM
  | XDG_POSITIONER_ANCHOR_LEFT
  | XDG_POSITIONER_ANCHOR_RIGHT
  | XDG_POSITIONER_ANCHOR_TOP_LEFT
  | XDG_POSITIONER_ANCHOR_BOTTOM_LEFT
  | XDG_POSITIONER_ANCHOR_TOP_RIGHT
  | XDG_POSITIONER_ANCHOR_BOTTOM_RIGHT

datatype xdg_positioner_gravity =
    XDG_POSITIONER_GRAVITY_NONE
  | XDG_POSITIONER_GRAVITY_TOP
  | XDG_POSITIONER_GRAVITY_BOTTOM
  | XDG_POSITIONER_GRAVITY_LEFT
  | XDG_POSITIONER_GRAVITY_RIGHT
  | XDG_POSITIONER_GRAVITY_TOP_LEFT
  | XDG_POSITIONER_GRAVITY_BOTTOM_LEFT
  | XDG_POSITIONER_GRAVITY_TOP_RIGHT
  | XDG_POSITIONER_GRAVITY_BOTTOM_RIGHT

record wlr_xdg_positioner =
  anchor_rect :: wlr_box
  anchor :: xdg_positioner_anchor
  gravity :: xdg_positioner_gravity
  constraint_adjustment :: uint32_t
  size_width :: int32_t
  size_height :: int32_t
  offset_x :: int32_t
  offset_y :: int32_t

record wlr_xdg_toplevel_state =
  maximized :: bool
  fullscreen :: bool
  resizing :: bool
  activated :: bool
  width :: uint32_t
  height :: uint32_t
  max_width :: uint32_t
  max_height :: uint32_t
  min_width :: uint32_t
  min_height :: uint32_t

record wlr_xdg_surface_configure =
  serial :: uint32_t
  state :: wlr_xdg_toplevel_state

record wlr_xdg_toplevel =
  toplevel_parent :: "surface_id option"
  toplevel_added :: bool
  next_state :: wlr_xdg_toplevel_state
  pending :: wlr_xdg_toplevel_state
  current :: wlr_xdg_toplevel_state

record wlr_xdg_popup =
  parent :: surface_id
  committed :: bool
  popup_geometry :: wlr_box
  seat :: "seat_id option"

datatype wlr_xdg_surface_role =
    WLR_XDG_SURFACE_ROLE_NONE
  | WLR_XDG_SURFACE_ROLE_TOPLEVEL
  | WLR_XDG_SURFACE_ROLE_POPUP

text \<open>
  What this file reads of the underlying \<^verbatim>\<open>wlr_surface\<close>: whether a buffer is
  attached (\<^verbatim>\<open>wlr_surface_has_buffer\<close>) and the pixel size of its current state.
\<close>

record wlr_surface =
  has_buffer :: bool
  current_width :: int32_t
  current_height :: int32_t

text \<open>
  \<^verbatim>\<open>struct wlr_xdg_surface\<close>.  The role substates are the objects behind
  \<^verbatim>\<open>toplevel_state\<close> and \<^verbatim>\<open>popup_state\<close>; the code reads them only under the
  matching \<^verbatim>\<open>role\<close>.  \<^verbatim>\<open>configure_idle\<close> tells whether the pointer to the idle
  event source is set; \<^verbatim>\<open>configure_list\<close> has its head first.
\<close>

record wlr_xdg_surface =
  client :: client_id
  role :: wlr_xdg_surface_role
  surface :: wlr_surface
  toplevel_state :: wlr_xdg_toplevel
  popup_state :: wlr_xdg_popup
  popups :: "surface_id list"
  configured :: bool
  added :: bool
  configure_serial :: uint32_t
  configure_idle :: bool
  configure_next_serial :: uint32_t
  configure_list :: "wlr_xdg_surface_configure list"
  title :: "string option"
  app_id :: "string option"
  has_next_geometry :: bool
  next_geometry :: wlr_box
  geometry :: wlr_box

text \<open>
  \<^verbatim>\<open>struct wlr_xdg_client\<close>: \<^verbatim>\<open>ping_timer\<close> is \<open>None\<close> for a \<^verbatim>\<open>NULL\<close> event
  source and otherwise holds the delay the timer is armed with (0 when disarmed).
\<close>

record wlr_xdg_client =
  client_surfaces :: "surface_id list"
  ping_serial :: uint32_t
  ping_timer :: "uint32_t option"

text \<open>\<^verbatim>\<open>struct wlr_xdg_popup_grab\<close>: the stack of popups has its topmost popup first.\<close>

record wlr_xdg_popup_grab =
  grab_client :: "client_id option"
  grab_seat :: seat_id
  grab_popups :: "surface_id list"

text \<open>
  The grab slots of a seat hold the seat's default grab, the grab of this shell's popup
  chain for that seat, or a grab owned by somebody else.
\<close>

datatype seat_grab = Default_grab | Xdg_popup_grab | Foreign_grab

record wlr_seat =
  pointer_grab :: seat_grab
  keyboard_grab :: seat_grab

subsection \<open>Effects\<close>

datatype protocol_error =
    XDG_WM_BASE_ERROR_ROLE
  | XDG_WM_BASE_ERROR_INVALID_POSITIONER
  | XDG_WM_BASE_ERROR_NOT_THE_TOPMOST_POPUP
  | XDG_WM_BASE_ERROR_INVALID_SURFACE_STATE
  | XDG_SURFACE_ERROR_NOT_CONSTRUCTED
  | XDG_SURFACE_ERROR_UNCONFIGURED_BUFFER
  | XDG_POSITIONER_ERROR_INVALID_INPUT
  | XDG_POPUP_ERROR_INVALID_GRAB

datatype wire_resource =
    Client_resource
  | Xdg_surface_resource
  | Xdg_toplevel_resource
  | Xdg_popup_resource
  | Wl_surface_resource

datatype xdg_toplevel_state_flag =
    XDG_TOPLEVEL_STATE_MAXIMIZED
  | XDG_TOPLEVEL_STATE_FULLSCREEN
  | XDG_TOPLEVEL_STATE_RESIZING
  | XDG_TOPLEVEL_STATE_ACTIVATED

datatype xdg_signal =
    Request_maximize
  | Request_fullscreen bool "nat option"
  | Request_minimize
  | New_surface
  | New_popup
  | Destroy

text \<open>
  Everything a handler does to the outside: protocol errors and events on the wire,
  signals to the compositor, and calls into the event loop.
\<close>

datatype effect =
    Post_error wire_resource protocol_error
  | Post_no_memory
  | Signal_emit xdg_signal
  | Toplevel_send_configure int32_t int32_t "xdg_toplevel_state_flag list"
  | Popup_send_configure int32_t int32_t int32_t int32_t
  | Surface_send_configure uint32_t
  | Wm_base_send_ping uint32_t
  | Event_loop_add_idle
  | Event_source_remove

text \<open>The shell with its clients, surfaces, popup grabs, the seats and the display.\<close>

record xdg_world =
  surfaces :: "surface_id \<Rightarrow> wlr_xdg_surface option"
  clients :: "client_id \<Rightarrow> wlr_xdg_client option"
  popup_grabs :: "wlr_xdg_popup_grab list"
  seats :: "seat_id \<Rightarrow> wlr_seat"
  ping_timeout :: uint32_t
  display_serial :: uint32_t
  effects :: "effect list"

text \<open>
  \<^verbatim>\<open>wl_display_next_serial\<close> of libwayland increments the display's serial and
  returns the new value.
\<close>

definition wl_display_next_serial :: "uint32_t \<Rightarrow> uint32_t" where
  "wl_display_next_serial d = d + 1"

section \<open>Positioner\<close>

definition anchor_shift_y :: "wlr_xdg_positioner \<Rightarrow> int32_t" where
  "anchor_shift_y p =
     (case anchor p of
        XDG_POSITIONER_ANCHOR_TOP \<Rightarrow> box_y (anchor_rect p)
      | XDG_POSITIONER_ANCHOR_TOP_LEFT \<Rightarrow> box_y (anchor_rect p)
      | XDG_POSITIONER_ANCHOR_TOP_RIGHT \<Rightarrow> box_y (anchor_rect p)
      | XDG_POSITIONER_ANCHOR_BOTTOM \<Rightarrow> box_y (anchor_rect p) + box_height (anchor_rect p)
      | XDG_POSITIONER_ANCHOR_BOTTOM_LEFT \<Rightarrow> box_y (anchor_rect p) + box_height (anchor_rect p)
      | XDG_POSITIONER_ANCHOR_BOTTOM_RIGHT \<Rightarrow> box_y (anchor_rect p) + box_height (anchor_rect p)
      | _ \<Rightarrow> box_y (anchor_rect p) + int32_div (box_height (anchor_rect p)) 2)"

definition anchor_shift_x :: "wlr_xdg_positioner \<Rightarrow> int32_t" where
  "anchor_shift_x p =
     (case anchor p of
        XDG_POSITIONER_ANCHOR_LEFT \<Rightarrow> box_x (anchor_rect p)
      | XDG_POSITIONER_ANCHOR_TOP_LEFT \<Rightarrow> box_x (anchor_rect p)
      | XDG_POSITIONER_ANCHOR_BOTTOM_LEFT \<Rightarrow> box_x (anchor_rect p)
      | XDG_POSITIONER_ANCHOR_RIGHT \<Rightarrow> box_x (anchor_rect p) + box_width (anchor_rect p)
      | XDG_POSITIONER_ANCHOR_TOP_RIGHT \<Rightarrow> box_x (anchor_rect p) + box_width (anchor_rect p)
      | XDG_POSITIONER_ANCHOR_BOTTOM_RIGHT \<Rightarrow> box_x (anchor_rect p) + box_width (anchor_rect p)
      | _ \<Rightarrow> box_x (anchor_rect p) + int32_div (box_width (anchor_rect p)) 2)"

definition gravity_shift_y :: "wlr_xdg_positioner \<Rightarrow> wlr_box \<Rightarrow> int32_t" where
  "gravity_shift_y p g =
     (case gravity p of
        XDG_POSITIONER_GRAVITY_TOP \<Rightarrow> box_y g - box_height g
      | XDG_POSITIONER_GRAVITY_TOP_LEFT \<Rightarrow> box_y g - box_height g
      | XDG_POSITIONER_GRAVITY_TOP_RIGHT \<Rightarrow> box_y g - box_height g
      | XDG_POSITIONER_GRAVITY_BOTTOM \<Rightarrow> box_y g
      | XDG_POSITIONER_GRAVITY_BOTTOM_LEFT \<Rightarrow> box_y g
      | XDG_POSITIONER_GRAVITY_BOTTOM_RIGHT \<Rightarrow> box_y g
      | _ \<Rightarrow> box_y g - int32_div (box_height g) 2)"

definition gravity_shift_x :: "wlr_xdg_positioner \<Rightarrow> wlr_box \<Rightarrow> int32_t" where
  "gravity_shift_x p g =
     (case gravity p of
        XDG_POSITIONER_GRAVITY_LEFT \<Rightarrow> box_x g - box_width g
      | XDG_POSITIONER_GRAVITY_TOP_LEFT \<Rightarrow> box_x g - box_width g
      | XDG_POSITIONER_GRAVITY_BOTTOM_LEFT \<Rightarrow> box_x g - box_width g
      | XDG_POSITIONER_GRAVITY_RIGHT \<Rightarrow> box_x g
      | XDG_POSITIONER_GRAVITY_TOP_RIGHT \<Rightarrow> box_x g
      | XDG_POSITIONER_GRAVITY_BOTTOM_RIGHT \<Rightarrow> box_x g
      | _ \<Rightarrow> box_x g - int32_div (box_width g) 2)"

text \<open>
  \<^verbatim>\<open>xdg_positioner_get_geometry\<close>: the four \<^verbatim>\<open>switch\<close> statements in the order of
  the source, each updating the box built from offset and size.  Both exits return the
  same box: \<^verbatim>\<open>constraint_adjustment\<close> is compared and then ignored.
\<close>

definition xdg_positioner_get_geometry :: "wlr_xdg_positioner \<Rightarrow> wlr_box" where
  "xdg_positioner_get_geometry p =
     (let g0 = \<lparr>box_x = offset_x p, box_y = offset_y p,
                box_width = size_width p, box_height = size_height p\<rparr>;
          g1 = g0\<lparr>box_y := box_y g0 + anchor_shift_y p\<rparr>;
          g2 = g1\<lparr>box_x := box_x g1 + anchor_shift_x p\<rparr>;
          g3 = g2\<lparr>box_y := gravity_shift_y p g2\<rparr>;
          g4 = g3\<lparr>box_x := gravity_shift_x p g3\<rparr>
      in if constraint_adjustment p = 0 then g4 else g4)"

section \<open>Ping\<close>

text \<open>
  \<^verbatim>\<open>wlr_xdg_surface_ping\<close>.  The surface and its client are reached through
  pointers; \<^verbatim>\<open>wl_event_source_timer_update\<close> dereferences the timer.
\<close>

definition wlr_xdg_surface_ping :: "xdg_world \<Rightarrow> surface_id \<Rightarrow> fault + xdg_world" where
  "wlr_xdg_surface_ping w sid =
     (case surfaces w sid of
        None \<Rightarrow> Inl Invalid_pointer
      | Some s \<Rightarrow>
         (case clients w (client s) of
            None \<Rightarrow> Inl Invalid_pointer
          | Some c \<Rightarrow>
             if ping_serial c \<noteq> 0 then Inr w
             else
               (let n = wl_display_next_serial (display_serial w) in
                case ping_timer c of
                  None \<Rightarrow> Inl Invalid_pointer
                | Some _ \<Rightarrow>
                    Inr (w\<lparr>clients := (clients w)(client s \<mapsto>
                               c\<lparr>ping_serial := n, ping_timer := Some (ping_timeout w)\<rparr>),
                           display_serial := n,
                           effects := effects w @ [Wm_base_send_ping n]\<rparr>))))"

section \<open>Configure queue: acknowledge, compare, send, schedule\<close>

text \<open>Memory handed out by \<^verbatim>\<open>calloc\<close> is zeroed.\<close>

definition calloc_toplevel_state :: wlr_xdg_toplevel_state where
  "calloc_toplevel_state =
     \<lparr>maximized = False, fullscreen = False, resizing = False, activated = False,
      width = 0, height = 0, max_width = 0, max_height = 0, min_width = 0, min_height = 0\<rparr>"

definition calloc_box :: wlr_box where
  "calloc_box = \<lparr>box_x = 0, box_y = 0, box_width = 0, box_height = 0\<rparr>"

text \<open>
  The loop of \<^verbatim>\<open>xdg_surface_ack_configure\<close> over \<^verbatim>\<open>configure_list\<close>: an entry
  with a smaller serial is removed and freed, an entry with the serial asked for is
  removed and kept (\<^verbatim>\<open>found\<close>), any other entry ends the loop.  The result is the
  entry found, if any, and the list that is left.
\<close>

fun ack_configure_walk ::
  "uint32_t \<Rightarrow> wlr_xdg_surface_configure list
   \<Rightarrow> wlr_xdg_surface_configure option \<times> wlr_xdg_surface_configure list" where
  "ack_configure_walk n [] = (None, [])"
| "ack_configure_walk n (c # cs) =
     (if serial c < n then ack_configure_walk n cs
      else if serial c = n then (Some c, cs)
      else (None, c # cs))"

definition wlr_xdg_toplevel_ack_configure ::
  "wlr_xdg_surface \<Rightarrow> wlr_xdg_surface_configure \<Rightarrow> fault + wlr_xdg_surface" where
  "wlr_xdg_toplevel_ack_configure s c =
     (if role s \<noteq> WLR_XDG_SURFACE_ROLE_TOPLEVEL then Inl Assertion_failed
      else Inr (s\<lparr>toplevel_state := (toplevel_state s)
                  \<lparr>next_state := state c,
                   pending := (pending (toplevel_state s))\<lparr>width := 0, height := 0\<rparr>\<rparr>\<rparr>))"

definition xdg_surface_ack_configure ::
  "wlr_xdg_surface \<Rightarrow> uint32_t \<Rightarrow> fault + effect list \<times> wlr_xdg_surface" where
  "xdg_surface_ack_configure s n =
     (if role s = WLR_XDG_SURFACE_ROLE_NONE
      then Inr ([Post_error Xdg_surface_resource XDG_SURFACE_ERROR_NOT_CONSTRUCTED], s)
      else
        (case ack_configure_walk n (configure_list s) of
           (None, rest) \<Rightarrow>
             Inr ([Post_error Client_resource XDG_WM_BASE_ERROR_INVALID_SURFACE_STATE],
                  s\<lparr>configure_list := rest\<rparr>)
         | (Some c, rest) \<Rightarrow>
             (case (case role s of
                      WLR_XDG_SURFACE_ROLE_NONE \<Rightarrow> Inl Assertion_failed
                    | WLR_XDG_SURFACE_ROLE_TOPLEVEL \<Rightarrow>
                        wlr_xdg_toplevel_ack_configure (s\<lparr>configure_list := rest\<rparr>) c
                    | WLR_XDG_SURFACE_ROLE_POPUP \<Rightarrow> Inr (s\<lparr>configure_list := rest\<rparr>)) of
                Inl f \<Rightarrow> Inl f
              | Inr s' \<Rightarrow> Inr ([], s'\<lparr>configured := True, configure_serial := n\<rparr>))))"

text \<open>
  \<^verbatim>\<open>wlr_xdg_surface_toplevel_state_compare\<close>, on the surface that the argument's
  \<^verbatim>\<open>base\<close> points to.  With an empty list the local \<^verbatim>\<open>configured.width\<close> and
  \<^verbatim>\<open>configured.height\<close> are both assigned \<^verbatim>\<open>state->base->surface->current->width\<close>.
\<close>

definition wlr_xdg_surface_toplevel_state_compare :: "wlr_xdg_surface \<Rightarrow> bool" where
  "wlr_xdg_surface_toplevel_state_compare s =
     (let st = toplevel_state s in
      if \<not> configured s then False
      else
        (let (configured_state, configured_width, configured_height) =
               (if configure_list s = []
                then (current st, current_width (surface s), current_width (surface s))
                else (let configure = last (configure_list s)
                      in (state configure, width (state configure), height (state configure))))
         in if activated (pending st) \<noteq> activated configured_state then False
            else if fullscreen (pending st) \<noteq> fullscreen configured_state then False
            else if maximized (pending st) \<noteq> maximized configured_state then False
            else if resizing (pending st) \<noteq> resizing configured_state then False
            else if width (pending st) = configured_width
                    \<and> height (pending st) = configured_height then True
            else if width (pending st) = 0 \<and> height (pending st) = 0 then True
            else False))"

text \<open>
  The four conditional \<^verbatim>\<open>wl_array_add\<close> calls of \<^verbatim>\<open>wlr_xdg_toplevel_send_configure\<close>.
  Each call that is made allocates; the allocator grants the first \<open>mem\<close> requests and
  refuses the next one, on which the code jumps to \<^verbatim>\<open>error_out\<close> (\<open>None\<close>).
\<close>

fun wl_array_add_states ::
  "nat \<Rightarrow> (bool \<times> xdg_toplevel_state_flag) list \<Rightarrow> xdg_toplevel_state_flag list
   \<Rightarrow> xdg_toplevel_state_flag list option" where
  "wl_array_add_states mem [] states = Some states"
| "wl_array_add_states mem ((b, f) # rest) states =
     (if b then (case mem of
                   0 \<Rightarrow> None
                 | Suc m \<Rightarrow> wl_array_add_states m rest (states @ [f]))
      else wl_array_add_states mem rest states)"

definition wlr_xdg_toplevel_send_configure ::
  "nat \<Rightarrow> wlr_xdg_surface \<Rightarrow> wlr_xdg_surface_configure
   \<Rightarrow> fault + effect list \<times> wlr_xdg_surface_configure" where
  "wlr_xdg_toplevel_send_configure mem s configure =
     (if role s \<noteq> WLR_XDG_SURFACE_ROLE_TOPLEVEL then Inl Assertion_failed
      else
        (let p = pending (toplevel_state s);
             configure' = configure\<lparr>state := p\<rparr>
         in case wl_array_add_states mem
                   [(maximized p, XDG_TOPLEVEL_STATE_MAXIMIZED),
                    (fullscreen p, XDG_TOPLEVEL_STATE_FULLSCREEN),
                    (resizing p, XDG_TOPLEVEL_STATE_RESIZING),
                    (activated p, XDG_TOPLEVEL_STATE_ACTIVATED)] [] of
              None \<Rightarrow> Inr ([Post_no_memory], configure')
            | Some states \<Rightarrow>
                (let w = width p; h = height p;
                     (w', h') = (if w = 0 \<or> h = 0
                                 then (box_width (geometry s), box_height (geometry s))
                                 else (w, h))
                 in Inr ([Toplevel_send_configure w' h' states], configure'))))"

text \<open>
  \<^verbatim>\<open>wlr_xdg_surface_send_configure\<close>, the idle task.  The new entry is linked at the
  tail of \<^verbatim>\<open>configure_list\<close>; the first allocation is the \<^verbatim>\<open>calloc\<close> of the entry.
\<close>

definition wlr_xdg_surface_send_configure ::
  "nat \<Rightarrow> wlr_xdg_surface \<Rightarrow> fault + effect list \<times> wlr_xdg_surface" where
  "wlr_xdg_surface_send_configure mem s =
     (let s1 = s\<lparr>configure_idle := False\<rparr> in
      case mem of
        0 \<Rightarrow> Inr ([Post_no_memory], s1)
      | Suc m \<Rightarrow>
          (let configure = \<lparr>serial = configure_next_serial s1, state = calloc_toplevel_state\<rparr>
           in case role s1 of
                WLR_XDG_SURFACE_ROLE_NONE \<Rightarrow> Inl Assertion_failed
              | WLR_XDG_SURFACE_ROLE_TOPLEVEL \<Rightarrow>
                  (case wlr_xdg_toplevel_send_configure m s1 configure of
                     Inl f \<Rightarrow> Inl f
                   | Inr (es, configure') \<Rightarrow>
                       Inr (es @ [Surface_send_configure (serial configure')],
                            s1\<lparr>configure_list := configure_list s1 @ [configure']\<rparr>))
              | WLR_XDG_SURFACE_ROLE_POPUP \<Rightarrow>
                  Inr ([Popup_send_configure
                          (box_x (popup_geometry (popup_state s1)))
                          (box_y (popup_geometry (popup_state s1)))
                          (box_width (popup_geometry (popup_state s1)))
                          (box_height (popup_geometry (popup_state s1))),
                        Surface_send_configure (serial configure)],
                       s1\<lparr>configure_list := configure_list s1 @ [configure]\<rparr>)))"

text \<open>
  The value of the local \<^verbatim>\<open>pending_same\<close> of \<^verbatim>\<open>wlr_xdg_surface_schedule_configure\<close>
  after its \<^verbatim>\<open>switch\<close>: initialised to false, assigned only for a toplevel.
\<close>

definition pending_same :: "wlr_xdg_surface \<Rightarrow> bool" where
  "pending_same s =
     (case role s of
        WLR_XDG_SURFACE_ROLE_TOPLEVEL \<Rightarrow> wlr_xdg_surface_toplevel_state_compare s
      | _ \<Rightarrow> False)"

text \<open>
  \<^verbatim>\<open>wlr_xdg_surface_schedule_configure\<close>, from the display's serial and the surface
  to the returned serial, the display's serial, the effects and the surface.
  Of libwayland's event loop the source holds only the calls, which are effects here:
  \<^verbatim>\<open>wl_event_loop_add_idle\<close> schedules one idle task and returns its handle,
  \<^verbatim>\<open>wl_event_source_remove\<close> cancels it.
\<close>

definition wlr_xdg_surface_schedule_configure ::
  "uint32_t \<Rightarrow> wlr_xdg_surface
   \<Rightarrow> fault + uint32_t \<times> uint32_t \<times> effect list \<times> wlr_xdg_surface" where
  "wlr_xdg_surface_schedule_configure d s =
     (if role s = WLR_XDG_SURFACE_ROLE_NONE then Inl Assertion_failed
      else if configure_idle s then
        (if \<not> pending_same s then Inr (configure_next_serial s, d, [], s)
         else Inr (0, d, [Event_source_remove], s\<lparr>configure_idle := False\<rparr>))
      else
        (if pending_same s then Inr (0, d, [], s)
         else (let n = wl_display_next_serial d
               in Inr (n, n, [Event_loop_add_idle],
                       s\<lparr>configure_next_serial := n, configure_idle := True\<rparr>))))"

section \<open>Commit\<close>

definition wlr_xdg_surface_toplevel_committed ::
  "uint32_t \<Rightarrow> wlr_xdg_surface \<Rightarrow> fault + uint32_t \<times> effect list \<times> wlr_xdg_surface" where
  "wlr_xdg_surface_toplevel_committed d s =
     (if role s \<noteq> WLR_XDG_SURFACE_ROLE_TOPLEVEL then Inl Assertion_failed
      else if \<not> has_buffer (surface s) \<and> \<not> toplevel_added (toplevel_state s) then
        (case wlr_xdg_surface_schedule_configure d s of
           Inl f \<Rightarrow> Inl f
         | Inr (r, d', es, s') \<Rightarrow>
             Inr (d', es, s'\<lparr>toplevel_state := (toplevel_state s')\<lparr>toplevel_added := True\<rparr>\<rparr>))
      else if \<not> has_buffer (surface s) then Inr (d, [], s)
      else Inr (d, [], s\<lparr>toplevel_state := (toplevel_state s)
                            \<lparr>current := next_state (toplevel_state s)\<rparr>\<rparr>))"

definition wlr_xdg_surface_popup_committed ::
  "uint32_t \<Rightarrow> wlr_xdg_surface \<Rightarrow> fault + uint32_t \<times> effect list \<times> wlr_xdg_surface" where
  "wlr_xdg_surface_popup_committed d s =
     (if role s \<noteq> WLR_XDG_SURFACE_ROLE_POPUP then Inl Assertion_failed
      else if \<not> committed (popup_state s) then
        (case wlr_xdg_surface_schedule_configure d s of
           Inl f \<Rightarrow> Inl f
         | Inr (r, d', es, s') \<Rightarrow>
             Inr (d', es, s'\<lparr>popup_state := (popup_state s')\<lparr>committed := True\<rparr>\<rparr>))
      else Inr (d, [], s))"

text \<open>
  \<^verbatim>\<open>handle_wlr_surface_committed\<close>, called when the underlying surface has been
  committed; \<open>surface s\<close> is the state of the underlying surface after that commit.
\<close>

definition handle_wlr_surface_committed ::
  "uint32_t \<Rightarrow> wlr_xdg_surface \<Rightarrow> fault + uint32_t \<times> effect list \<times> wlr_xdg_surface" where
  "handle_wlr_surface_committed d s =
     (if has_buffer (surface s) \<and> \<not> configured s
      then Inr (d, [Post_error Xdg_surface_resource XDG_SURFACE_ERROR_UNCONFIGURED_BUFFER], s)
      else
        (let s1 = (if has_next_geometry s
                   then s\<lparr>has_next_geometry := False,
                          geometry := (geometry s)
                            \<lparr>box_x := box_x (next_geometry s),
                             box_y := box_y (next_geometry s),
                             box_width := box_width (next_geometry s),
                             box_height := box_height (next_geometry s)\<rparr>\<rparr>
                   else s)
         in case (case role s1 of
                    WLR_XDG_SURFACE_ROLE_NONE \<Rightarrow>
                      Inr (d, [Post_error Xdg_surface_resource XDG_SURFACE_ERROR_NOT_CONSTRUCTED], s1)
                  | WLR_XDG_SURFACE_ROLE_TOPLEVEL \<Rightarrow> wlr_xdg_surface_toplevel_committed d s1
                  | WLR_XDG_SURFACE_ROLE_POPUP \<Rightarrow> wlr_xdg_surface_popup_committed d s1) of
              Inl f \<Rightarrow> Inl f
            | Inr (d', es, s2) \<Rightarrow>
                if configured s2 \<and> \<not> added s2
                then Inr (d', es @ [Signal_emit New_surface], s2\<lparr>added := True\<rparr>)
                else Inr (d', es, s2)))"

section \<open>Requests of the toplevel role that set state\<close>

definition xdg_toplevel_protocol_set_max_size ::
  "wlr_xdg_surface \<Rightarrow> int32_t \<Rightarrow> int32_t \<Rightarrow> effect list \<times> wlr_xdg_surface" where
  "xdg_toplevel_protocol_set_max_size s w h =
     ([], s\<lparr>toplevel_state := (toplevel_state s)
              \<lparr>next_state := (next_state (toplevel_state s))\<lparr>max_width := w, max_height := h\<rparr>\<rparr>\<rparr>)"

definition xdg_toplevel_protocol_set_min_size ::
  "wlr_xdg_surface \<Rightarrow> int32_t \<Rightarrow> int32_t \<Rightarrow> effect list \<times> wlr_xdg_surface" where
  "xdg_toplevel_protocol_set_min_size s w h =
     ([], s\<lparr>toplevel_state := (toplevel_state s)
              \<lparr>next_state := (next_state (toplevel_state s))\<lparr>min_width := w, min_height := h\<rparr>\<rparr>\<rparr>)"

definition xdg_toplevel_protocol_set_maximized ::
  "wlr_xdg_surface \<Rightarrow> effect list \<times> wlr_xdg_surface" where
  "xdg_toplevel_protocol_set_maximized s =
     ([Signal_emit Request_maximize],
      s\<lparr>toplevel_state := (toplevel_state s)
          \<lparr>next_state := (next_state (toplevel_state s))\<lparr>maximized := True\<rparr>\<rparr>\<rparr>)"

definition xdg_toplevel_protocol_unset_maximized ::
  "wlr_xdg_surface \<Rightarrow> effect list \<times> wlr_xdg_surface" where
  "xdg_toplevel_protocol_unset_maximized s =
     ([Signal_emit Request_maximize],
      s\<lparr>toplevel_state := (toplevel_state s)
          \<lparr>next_state := (next_state (toplevel_state s))\<lparr>maximized := False\<rparr>\<rparr>\<rparr>)"

definition xdg_toplevel_protocol_set_fullscreen ::
  "wlr_xdg_surface \<Rightarrow> nat option \<Rightarrow> effect list \<times> wlr_xdg_surface" where
  "xdg_toplevel_protocol_set_fullscreen s output =
     ([Signal_emit (Request_fullscreen True output)],
      s\<lparr>toplevel_state := (toplevel_state s)
          \<lparr>next_state := (next_state (toplevel_state s))\<lparr>fullscreen := True\<rparr>\<rparr>\<rparr>)"

definition xdg_toplevel_protocol_unset_fullscreen ::
  "wlr_xdg_surface \<Rightarrow> effect list \<times> wlr_xdg_surface" where
  "xdg_toplevel_protocol_unset_fullscreen s =
     ([Signal_emit (Request_fullscreen False None)],
      s\<lparr>toplevel_state := (toplevel_state s)
          \<lparr>next_state := (next_state (toplevel_state s))\<lparr>fullscreen := False\<rparr>\<rparr>\<rparr>)"

definition xdg_toplevel_protocol_set_minimized ::
  "wlr_xdg_surface \<Rightarrow> effect list \<times> wlr_xdg_surface" where
  "xdg_toplevel_protocol_set_minimized s = ([Signal_emit Request_minimize], s)"

section \<open>Creating a surface\<close>

text \<open>
  The object that \<^verbatim>\<open>xdg_shell_get_xdg_surface\<close> has built when it links it into the
  client's list: zeroed memory, with the client, the role, the underlying surface and the
  empty lists set.
\<close>

definition calloc_xdg_surface :: "client_id \<Rightarrow> wlr_surface \<Rightarrow> wlr_xdg_surface" where
  "calloc_xdg_surface cid base =
     \<lparr>client = cid, role = WLR_XDG_SURFACE_ROLE_NONE, surface = base,
      toplevel_state = \<lparr>toplevel_parent = None, toplevel_added = False,
                        next_state = calloc_toplevel_state, pending = calloc_toplevel_state,
                        current = calloc_toplevel_state\<rparr>,
      popup_state = \<lparr>parent = 0, committed = False, popup_geometry = calloc_box, seat = None\<rparr>,
      popups = [], configured = False, added = False, configure_serial = 0,
      configure_idle = False, configure_next_serial = 0, configure_list = [],
      title = None, app_id = None, has_next_geometry = False,
      next_geometry = calloc_box, geometry = calloc_box\<rparr>"

definition post :: "effect \<Rightarrow> xdg_world \<Rightarrow> xdg_world" where
  "post e w = w\<lparr>effects := effects w @ [e]\<rparr>"

text \<open>
  \<^verbatim>\<open>xdg_shell_get_xdg_surface\<close> for the client \<open>cid\<close> over the underlying surface
  \<open>base\<close>; \<open>sid\<close> is the address of the new object.  Four allocations come before the
  test of the buffer: the surface, its two boxes and the resource.  The allocator grants
  the first \<open>mem\<close> of them; each refusal posts \<^verbatim>\<open>no_memory\<close> and returns with
  everything allocated so far released.
\<close>

definition xdg_shell_get_xdg_surface ::
  "nat \<Rightarrow> xdg_world \<Rightarrow> client_id \<Rightarrow> surface_id \<Rightarrow> wlr_surface \<Rightarrow> fault + xdg_world" where
  "xdg_shell_get_xdg_surface mem w cid sid base =
     (if mem < 4 then Inr (post Post_no_memory w)
      else if has_buffer base
      then Inr (post (Post_error Wl_surface_resource XDG_SURFACE_ERROR_UNCONFIGURED_BUFFER) w)
      else
        (case clients w cid of
           None \<Rightarrow> Inl Invalid_pointer
         | Some c \<Rightarrow>
             Inr (w\<lparr>surfaces := (surfaces w)(sid \<mapsto> calloc_xdg_surface cid base),
                    clients := (clients w)(cid \<mapsto>
                                 c\<lparr>client_surfaces := sid # client_surfaces c\<rparr>)\<rparr>)))"

section \<open>Popup grabs\<close>

definition xdg_popup_grab_get_topmost :: "wlr_xdg_popup_grab \<Rightarrow> surface_id option" where
  "xdg_popup_grab_get_topmost grab =
     (case grab_popups grab of [] \<Rightarrow> None | popup # _ \<Rightarrow> Some popup)"

text \<open>
  \<^verbatim>\<open>xdg_shell_popup_grab_from_seat\<close>: the first grab of the shell's list that is
  for the seat; when there is none, a new one with no popups is allocated and linked at
  the head of the list.  \<open>None\<close> is the \<^verbatim>\<open>NULL\<close> returned when \<^verbatim>\<open>calloc\<close> fails.
\<close>

definition xdg_shell_popup_grab_from_seat ::
  "nat \<Rightarrow> xdg_world \<Rightarrow> seat_id \<Rightarrow> wlr_xdg_popup_grab option \<times> xdg_world" where
  "xdg_shell_popup_grab_from_seat mem w st =
     (case find (\<lambda>g. grab_seat g = st) (popup_grabs w) of
        Some g \<Rightarrow> (Some g, w)
      | None \<Rightarrow>
          (case mem of
             0 \<Rightarrow> (None, w)
           | Suc m \<Rightarrow>
               (let g = \<lparr>grab_client = None, grab_seat = st, grab_popups = []\<rparr>
                in (Some g, w\<lparr>popup_grabs := g # popup_grabs w\<rparr>))))"

text \<open>A write through the pointer returned by \<^verbatim>\<open>xdg_shell_popup_grab_from_seat\<close>.\<close>

fun grab_update ::
  "seat_id \<Rightarrow> (wlr_xdg_popup_grab \<Rightarrow> wlr_xdg_popup_grab) \<Rightarrow> wlr_xdg_popup_grab list
   \<Rightarrow> wlr_xdg_popup_grab list" where
  "grab_update st f [] = []"
| "grab_update st f (g # gs) =
     (if grab_seat g = st then f g # gs else g # grab_update st f gs)"

text \<open>
  Modelled from the spec: \<^verbatim>\<open>wlr_seat_pointer_start_grab\<close> belongs to the seat, of
  which the source holds only the calls.  It installs the chain's pointer grab into the
  seat's single pointer grab slot.
\<close>

definition wlr_seat_pointer_start_grab :: "wlr_seat \<Rightarrow> wlr_seat" where
  "wlr_seat_pointer_start_grab s = s\<lparr>pointer_grab := Xdg_popup_grab\<rparr>"

text \<open>
  Modelled from the spec: \<^verbatim>\<open>wlr_seat_keyboard_start_grab\<close>, likewise for the seat's
  single keyboard grab slot.
\<close>

definition wlr_seat_keyboard_start_grab :: "wlr_seat \<Rightarrow> wlr_seat" where
  "wlr_seat_keyboard_start_grab s = s\<lparr>keyboard_grab := Xdg_popup_grab\<rparr>"

text \<open>
  Modelled from the spec: \<^verbatim>\<open>wlr_seat_pointer_end_grab\<close> ends the pointer grab at the
  seat, which gives the slot back to the seat's default grab.
\<close>

definition wlr_seat_pointer_end_grab :: "wlr_seat \<Rightarrow> wlr_seat" where
  "wlr_seat_pointer_end_grab s = s\<lparr>pointer_grab := Default_grab\<rparr>"

text \<open>
  Modelled from the spec: \<^verbatim>\<open>wlr_seat_keyboard_end_grab\<close> ends the keyboard grab at
  the seat, which gives the slot back to the seat's default grab.
\<close>

definition wlr_seat_keyboard_end_grab :: "wlr_seat \<Rightarrow> wlr_seat" where
  "wlr_seat_keyboard_end_grab s = s\<lparr>keyboard_grab := Default_grab\<rparr>"

text \<open>
  \<^verbatim>\<open>xdg_popup_protocol_grab\<close> on the popup \<open>sid\<close> for the seat \<open>st\<close>.  The serial of
  the request is not read.  A \<^verbatim>\<open>NULL\<close> grab is dereferenced by
  \<^verbatim>\<open>xdg_popup_grab_get_topmost\<close>.
\<close>

definition xdg_popup_protocol_grab ::
  "nat \<Rightarrow> xdg_world \<Rightarrow> surface_id \<Rightarrow> seat_id \<Rightarrow> uint32_t \<Rightarrow> fault + xdg_world" where
  "xdg_popup_protocol_grab mem w sid st n =
     (case surfaces w sid of
        None \<Rightarrow> Inl Invalid_pointer
      | Some s \<Rightarrow>
          if committed (popup_state s)
          then Inr (post (Post_error Xdg_popup_resource XDG_POPUP_ERROR_INVALID_GRAB) w)
          else
            (case xdg_shell_popup_grab_from_seat mem w st of
               (None, w1) \<Rightarrow> Inl Invalid_pointer
             | (Some popup_grab, w1) \<Rightarrow>
                 (case surfaces w1 (parent (popup_state s)) of
                    None \<Rightarrow> Inl Invalid_pointer
                  | Some p \<Rightarrow>
                      (let topmost = xdg_popup_grab_get_topmost popup_grab;
                           parent_is_toplevel = (role p = WLR_XDG_SURFACE_ROLE_TOPLEVEL)
                       in if (topmost = None \<and> \<not> parent_is_toplevel)
                             \<or> (topmost \<noteq> None \<and> topmost \<noteq> Some (parent (popup_state s)))
                          then Inr (post (Post_error Client_resource
                                            XDG_WM_BASE_ERROR_NOT_THE_TOPMOST_POPUP) w1)
                          else Inr (w1\<lparr>popup_grabs :=
                                         grab_update st
                                           (\<lambda>g. g\<lparr>grab_client := Some (client s),
                                                  grab_popups := sid # grab_popups g\<rparr>)
                                           (popup_grabs w1),
                                       surfaces := (surfaces w1)(sid \<mapsto>
                                         s\<lparr>popup_state := (popup_state s)\<lparr>seat := Some st\<rparr>\<rparr>),
                                       seats := (seats w1)(st :=
                                         wlr_seat_keyboard_start_grab
                                           (wlr_seat_pointer_start_grab (seats w1 st)))\<rparr>)))))"

section \<open>Destroying a surface\<close>

text \<open>
  The part of \<^verbatim>\<open>xdg_surface_destroy\<close> under \<^verbatim>\<open>if (surface->popup_state->seat)\<close>:
  the test against the topmost popup, the unlinking from the grab's list and, when the
  list is empty afterwards, the end of the seat's grabs that are the chain's.
\<close>

definition destroy_popup_grab ::
  "nat \<Rightarrow> xdg_world \<Rightarrow> surface_id \<Rightarrow> seat_id \<Rightarrow> fault + xdg_world" where
  "destroy_popup_grab mem w sid st =
     (case xdg_shell_popup_grab_from_seat mem w st of
        (None, w1) \<Rightarrow> Inl Invalid_pointer
      | (Some grab, w1) \<Rightarrow>
          (let w2 = (if xdg_popup_grab_get_topmost grab \<noteq> Some sid
                     then post (Post_error Client_resource
                                  XDG_WM_BASE_ERROR_NOT_THE_TOPMOST_POPUP) w1
                     else w1);
               w3 = w2\<lparr>popup_grabs :=
                         grab_update st (\<lambda>g. g\<lparr>grab_popups := remove1 sid (grab_popups g)\<rparr>)
                           (popup_grabs w2)\<rparr>
           in if remove1 sid (grab_popups grab) = []
              then
                (let s1 = seats w3 st;
                     s2 = (if pointer_grab s1 = Xdg_popup_grab
                           then wlr_seat_pointer_end_grab s1 else s1);
                     s3 = (if keyboard_grab s2 = Xdg_popup_grab
                           then wlr_seat_keyboard_end_grab s2 else s2)
                 in Inr (w3\<lparr>seats := (seats w3)(st := s3)\<rparr>))
              else Inr w3))"

text \<open>
  The unlinking at the end of \<^verbatim>\<open>xdg_surface_destroy\<close>: from the parent's list of
  popups (for a popup), from the client's list of surfaces, and the release of the object.
\<close>

definition unlink_popup :: "xdg_world \<Rightarrow> surface_id \<Rightarrow> surface_id \<Rightarrow> xdg_world" where
  "unlink_popup w sid pid =
     (case surfaces w pid of
        None \<Rightarrow> w
      | Some p \<Rightarrow> w\<lparr>surfaces := (surfaces w)(pid \<mapsto> p\<lparr>popups := remove1 sid (popups p)\<rparr>)\<rparr>)"

definition unlink_surface :: "xdg_world \<Rightarrow> surface_id \<Rightarrow> client_id \<Rightarrow> xdg_world" where
  "unlink_surface w sid cid =
     (let w1 = (case clients w cid of
                  None \<Rightarrow> w
                | Some c \<Rightarrow>
                    w\<lparr>clients := (clients w)(cid \<mapsto>
                         c\<lparr>client_surfaces := remove1 sid (client_surfaces c)\<rparr>)\<rparr>)
      in w1\<lparr>surfaces := (surfaces w1)(sid := None)\<rparr>)"

definition xdg_surface_destroy :: "nat \<Rightarrow> xdg_world \<Rightarrow> surface_id \<Rightarrow> fault + xdg_world" where
  "xdg_surface_destroy mem w sid =
     (case surfaces w sid of
        None \<Rightarrow> Inl Invalid_pointer
      | Some s \<Rightarrow>
          (let w0 = post (Signal_emit Destroy) w;
               w1 = (if configure_idle s then post Event_source_remove w0 else w0)
           in if role s = WLR_XDG_SURFACE_ROLE_POPUP
              then
                (case (case seat (popup_state s) of
                         None \<Rightarrow> Inr w1
                       | Some st \<Rightarrow> destroy_popup_grab mem w1 sid st) of
                   Inl f \<Rightarrow> Inl f
                 | Inr w2 \<Rightarrow>
                     Inr (unlink_surface (unlink_popup w2 sid (parent (popup_state s)))
                            sid (client s)))
              else Inr (unlink_surface w1 sid (client s))))"

text \<open>Destroying the surfaces of a list one after the other, first to last.\<close>

fun destroy_all :: "nat \<Rightarrow> xdg_world \<Rightarrow> surface_id list \<Rightarrow> fault + xdg_world" where
  "destroy_all mem w [] = Inr w"
| "destroy_all mem w (sid # sids) =
     (case xdg_surface_destroy mem w sid of
        Inl f \<Rightarrow> Inl f
      | Inr w' \<Rightarrow> destroy_all mem w' sids)"

section \<open>Observations on effects\<close>

text \<open>Whether a list of effects holds an \<^verbatim>\<open>UNCONFIGURED_BUFFER\<close> error on any resource.\<close>

definition posts_unconfigured_buffer :: "effect list \<Rightarrow> bool" where
  "posts_unconfigured_buffer es =
     list_ex (\<lambda>e. case e of
                    Post_error r code \<Rightarrow> code = XDG_SURFACE_ERROR_UNCONFIGURED_BUFFER
                  | _ \<Rightarrow> False) es"

section \<open>Example states\<close>

text \<open>An underlying surface without a buffer, and a toplevel and a popup made from it.\<close>

definition example_base :: wlr_surface where
  "example_base = \<lparr>has_buffer = False, current_width = 0, current_height = 0\<rparr>"

definition example_toplevel :: wlr_xdg_surface where
  "example_toplevel = (calloc_xdg_surface 0 example_base)\<lparr>role := WLR_XDG_SURFACE_ROLE_TOPLEVEL\<rparr>"

definition example_popup :: "surface_id \<Rightarrow> wlr_xdg_surface" where
  "example_popup p =
     (calloc_xdg_surface 0 example_base)
       \<lparr>role := WLR_XDG_SURFACE_ROLE_POPUP,
        popup_state := \<lparr>parent = p, committed = False, popup_geometry = calloc_box, seat = None\<rparr>\<rparr>"

definition example_configure :: "uint32_t \<Rightarrow> wlr_xdg_surface_configure" where
  "example_configure n = \<lparr>serial = n, state = calloc_toplevel_state\<rparr>"

text \<open>
  A shell with one client, bound as \<^verbatim>\<open>xdg_shell_bind\<close> leaves it, the timeout set by
  \<^verbatim>\<open>wlr_xdg_shell_create\<close>, no surfaces and no grabs.
\<close>

definition example_client :: wlr_xdg_client where
  "example_client = \<lparr>client_surfaces = [], ping_serial = 0, ping_timer = Some 0\<rparr>"

definition example_world :: xdg_world where
  "example_world =
     \<lparr>surfaces = Map.empty, clients = [0 \<mapsto> example_client], popup_grabs = [],
      seats = (\<lambda>st. \<lparr>pointer_grab = Default_grab, keyboard_grab = Default_grab\<rparr>),
      ping_timeout = 10000, display_serial = 0, effects = []\<rparr>"

text \<open>
  A toplevel 1 with a popup 2 on it and a popup 3 on that popup, none of them mapped,
  before any grab.
\<close>

definition example_popups :: xdg_world where
  "example_popups =
     example_world
       \<lparr>surfaces := [1 \<mapsto> example_toplevel\<lparr>popups := [2]\<rparr>,
                     2 \<mapsto> (example_popup 1)\<lparr>popups := [3]\<rparr>,
                     3 \<mapsto> example_popup 2],
        clients := [0 \<mapsto> example_client\<lparr>client_surfaces := [3, 2, 1]\<rparr>]\<rparr>"

text \<open>
  The same surfaces after popup 2 and then popup 3 have taken a grab on seat 0: the
  chain of the seat holds popup 3 on top of popup 2.
\<close>

definition example_chain :: xdg_world where
  "example_chain =
     example_world
       \<lparr>surfaces :=
          [1 \<mapsto> example_toplevel\<lparr>popups := [2]\<rparr>,
           2 \<mapsto> (example_popup 1)
                 \<lparr>popups := [3],
                  popup_state := \<lparr>parent = 1, committed = False,
                                  popup_geometry = calloc_box, seat = Some 0\<rparr>\<rparr>,
           3 \<mapsto> (example_popup 2)
                 \<lparr>popup_state := \<lparr>parent = 2, committed = False,
                                  popup_geometry = calloc_box, seat = Some 0\<rparr>\<rparr>],
        clients := [0 \<mapsto> example_client\<lparr>client_surfaces := [3, 2, 1]\<rparr>],
        popup_grabs := [\<lparr>grab_client = Some 0, grab_seat = 0, grab_popups = [3, 2]\<rparr>],
        seats := (\<lambda>st. if st = 0
                       then \<lparr>pointer_grab = Xdg_popup_grab, keyboard_grab = Xdg_popup_grab\<rparr>
                       else \<lparr>pointer_grab = Default_grab, keyboard_grab = Default_grab\<rparr>)\<rparr>"

section \<open>Properties of the positioner and of ping\<close>

lemma int32_div_10_2: "int32_div 10 2 = 5"
  by (simp add: int32_div_def)

lemma int32_div_100_2: "int32_div 100 2 = 50"
  by (simp add: int32_div_def)

text \<open>
  Claim C9.  A positioner with anchor \<open>NONE\<close>, gravity \<open>NONE\<close> and offset \<open>(0,0)\<close>
  yields the box whose position is the midpoint of the anchor rectangle minus half the
  size, and whose extent is the size; for size \<open>(10,10)\<close> and anchor rectangle
  \<open>(0,0,100,100)\<close> this is \<open>(45,45,10,10)\<close>.  Halving is the C quotient by 2.
\<close>

theorem positioner_centered_geometry:
  assumes "anchor p = XDG_POSITIONER_ANCHOR_NONE"
    and "gravity p = XDG_POSITIONER_GRAVITY_NONE"
    and "offset_x p = 0" and "offset_y p = 0"
  shows "xdg_positioner_get_geometry p =
           \<lparr>box_x = box_x (anchor_rect p) + int32_div (box_width (anchor_rect p)) 2
                     - int32_div (size_width p) 2,
            box_y = box_y (anchor_rect p) + int32_div (box_height (anchor_rect p)) 2
                     - int32_div (size_height p) 2,
            box_width = size_width p, box_height = size_height p\<rparr>
         \<and> (size_width p = 10 \<and> size_height p = 10
              \<and> anchor_rect p = \<lparr>box_x = 0, box_y = 0, box_width = 100, box_height = 100\<rparr>
            \<longrightarrow> xdg_positioner_get_geometry p =
                  \<lparr>box_x = 45, box_y = 45, box_width = 10, box_height = 10\<rparr>)"
  using assms
  by (simp add: xdg_positioner_get_geometry_def anchor_shift_x_def anchor_shift_y_def
      gravity_shift_x_def gravity_shift_y_def Let_def int32_div_10_2 int32_div_100_2)

theorem positioner_centered_geometry_witness:
  "xdg_positioner_get_geometry
     \<lparr>anchor_rect = \<lparr>box_x = 0, box_y = 0, box_width = 100, box_height = 100\<rparr>,
      anchor = XDG_POSITIONER_ANCHOR_NONE, gravity = XDG_POSITIONER_GRAVITY_NONE,
      constraint_adjustment = 0, size_width = 10, size_height = 10,
      offset_x = 0, offset_y = 0\<rparr>
   = \<lparr>box_x = 45, box_y = 45, box_width = 10, box_height = 10\<rparr>"
  using positioner_centered_geometry
    [of "\<lparr>anchor_rect = \<lparr>box_x = 0, box_y = 0, box_width = 100, box_height = 100\<rparr>,
      anchor = XDG_POSITIONER_ANCHOR_NONE, gravity = XDG_POSITIONER_GRAVITY_NONE,
      constraint_adjustment = 0, size_width = 10, size_height = 10,
      offset_x = 0, offset_y = 0\<rparr>"]
  by (simp add: int32_div_10_2 int32_div_100_2)

text \<open>
  Claim C10.  When the client of the surface has a nonzero outstanding ping serial,
  \<^verbatim>\<open>wlr_xdg_surface_ping\<close> returns at once: no serial is drawn from the display, the
  timer is not re-armed, no ping is sent, and the client's ping state is as before.
\<close>

theorem ping_outstanding_noop:
  assumes "surfaces w sid = Some s"
    and "clients w (client s) = Some c"
    and "ping_serial c \<noteq> 0"
  shows "wlr_xdg_surface_ping w sid = Inr w"
  using assms by (simp add: wlr_xdg_surface_ping_def)

theorem ping_outstanding_noop_witness:
  "wlr_xdg_surface_ping
     (example_world\<lparr>surfaces := [1 \<mapsto> example_toplevel],
                    clients := [0 \<mapsto> example_client\<lparr>ping_serial := 7\<rparr>]\<rparr>) 1
   = Inr (example_world\<lparr>surfaces := [1 \<mapsto> example_toplevel],
                         clients := [0 \<mapsto> example_client\<lparr>ping_serial := 7\<rparr>]\<rparr>)"
  using ping_outstanding_noop
          [of "example_world\<lparr>surfaces := [1 \<mapsto> example_toplevel],
                              clients := [0 \<mapsto> example_client\<lparr>ping_serial := 7\<rparr>]\<rparr>"
              1 example_toplevel "example_client\<lparr>ping_serial := 7\<rparr>"]
  by (simp add: example_toplevel_def calloc_xdg_surface_def)
section \<open>Acknowledging a configure\<close>

lemma ack_configure_walk_dropWhile:
  "ack_configure_walk n q =
     (case dropWhile (\<lambda>c. serial c < n) q of
        [] \<Rightarrow> (None, [])
      | c # rest \<Rightarrow> if serial c = n then (Some c, rest) else (None, c # rest))"
  by (induction q) auto

lemma dropWhile_no_match:
  "\<forall>c\<in>set q. serial c \<noteq> n \<Longrightarrow>
   (case dropWhile (\<lambda>c. serial c < n) q of
      [] \<Rightarrow> True | c # rest \<Rightarrow> serial c \<noteq> n)"
  by (induction q) auto

text \<open>
  Claim C1.  On a surface with a role, \<^verbatim>\<open>ack_configure(n)\<close> drops from the head of
  the queue the entries with a serial below \<open>n\<close> and looks at the first entry that is
  left.  If that entry has the serial \<open>n\<close> it is taken out of the queue, nothing is
  posted, \<^verbatim>\<open>configured\<close> becomes true and \<^verbatim>\<open>configure_serial\<close> becomes \<open>n\<close> (for a
  toplevel the entry's snapshot becomes \<^verbatim>\<open>next\<close> and the pending size is zeroed).
  If it has a greater serial, or no entry is left, \<^verbatim>\<open>INVALID_SURFACE_STATE\<close> is posted
  on the client and the surface keeps the shortened queue and is otherwise unchanged.
  In particular this is what happens when no entry of the queue has the serial \<open>n\<close>.
\<close>

theorem ack_configure_walks_queue:
  assumes "role s \<noteq> WLR_XDG_SURFACE_ROLE_NONE"
  shows "(case dropWhile (\<lambda>c. serial c < n) (configure_list s) of
            [] \<Rightarrow>
              xdg_surface_ack_configure s n =
                Inr ([Post_error Client_resource XDG_WM_BASE_ERROR_INVALID_SURFACE_STATE],
                     s\<lparr>configure_list := []\<rparr>)
          | c # rest \<Rightarrow>
              if serial c = n
              then xdg_surface_ack_configure s n =
                     Inr ([],
                          (if role s = WLR_XDG_SURFACE_ROLE_TOPLEVEL
                           then s\<lparr>configure_list := rest,
                                  toplevel_state := (toplevel_state s)
                                    \<lparr>next_state := state c,
                                     pending := (pending (toplevel_state s))
                                       \<lparr>width := 0, height := 0\<rparr>\<rparr>\<rparr>
                           else s\<lparr>configure_list := rest\<rparr>)
                          \<lparr>configured := True, configure_serial := n\<rparr>)
              else xdg_surface_ack_configure s n =
                     Inr ([Post_error Client_resource XDG_WM_BASE_ERROR_INVALID_SURFACE_STATE],
                          s\<lparr>configure_list := c # rest\<rparr>))
         \<and> ((\<forall>c\<in>set (configure_list s). serial c \<noteq> n) \<longrightarrow>
              xdg_surface_ack_configure s n =
                Inr ([Post_error Client_resource XDG_WM_BASE_ERROR_INVALID_SURFACE_STATE],
                     s\<lparr>configure_list := dropWhile (\<lambda>c. serial c < n) (configure_list s)\<rparr>))"
proof -
  define q where "q = dropWhile (\<lambda>c. serial c < n) (configure_list s)"
  have role_cases: "role s = WLR_XDG_SURFACE_ROLE_TOPLEVEL \<or> role s = WLR_XDG_SURFACE_ROLE_POPUP"
    using assms by (cases "role s") simp_all
  have walk: "ack_configure_walk n (configure_list s) =
                (case q of [] \<Rightarrow> (None, [])
                 | c # rest \<Rightarrow> if serial c = n then (Some c, rest) else (None, c # rest))"
    unfolding q_def by (rule ack_configure_walk_dropWhile)
  have no_match: "case q of [] \<Rightarrow> True | c # rest \<Rightarrow> serial c \<noteq> n"
    if "\<forall>c\<in>set (configure_list s). serial c \<noteq> n"
    unfolding q_def using that by (rule dropWhile_no_match)
  have "(case q of
            [] \<Rightarrow>
              xdg_surface_ack_configure s n =
                Inr ([Post_error Client_resource XDG_WM_BASE_ERROR_INVALID_SURFACE_STATE],
                     s\<lparr>configure_list := []\<rparr>)
          | c # rest \<Rightarrow>
              if serial c = n
              then xdg_surface_ack_configure s n =
                     Inr ([],
                          (if role s = WLR_XDG_SURFACE_ROLE_TOPLEVEL
                           then s\<lparr>configure_list := rest,
                                  toplevel_state := (toplevel_state s)
                                    \<lparr>next_state := state c,
                                     pending := (pending (toplevel_state s))
                                       \<lparr>width := 0, height := 0\<rparr>\<rparr>\<rparr>
                           else s\<lparr>configure_list := rest\<rparr>)
                          \<lparr>configured := True, configure_serial := n\<rparr>)
              else xdg_surface_ack_configure s n =
                     Inr ([Post_error Client_resource XDG_WM_BASE_ERROR_INVALID_SURFACE_STATE],
                          s\<lparr>configure_list := c # rest\<rparr>))
         \<and> ((\<forall>c\<in>set (configure_list s). serial c \<noteq> n) \<longrightarrow>
              xdg_surface_ack_configure s n =
                Inr ([Post_error Client_resource XDG_WM_BASE_ERROR_INVALID_SURFACE_STATE],
                     s\<lparr>configure_list := q\<rparr>))"
  proof (cases q)
    case Nil
    with assms walk show ?thesis
      by (simp add: xdg_surface_ack_configure_def)
  next
    case (Cons c rest)
    show ?thesis
    proof (cases "serial c = n")
      case True
      with Cons no_match have "\<not> (\<forall>c\<in>set (configure_list s). serial c \<noteq> n)"
        by fastforce
      with True Cons walk role_cases show ?thesis
        by (auto simp: xdg_surface_ack_configure_def wlr_xdg_toplevel_ack_configure_def)
    next
      case False
      with Cons assms walk show ?thesis
        by (simp add: xdg_surface_ack_configure_def)
    qed
  qed
  then show ?thesis
    unfolding q_def .
qed

theorem ack_configure_walks_queue_witness:
  "xdg_surface_ack_configure
     (example_toplevel\<lparr>configure_list :=
        [example_configure 3, example_configure 4, example_configure 5]\<rparr>) 4
   = Inr ([], example_toplevel
               \<lparr>configure_list := [example_configure 5],
                configured := True, configure_serial := 4\<rparr>)
   \<and> xdg_surface_ack_configure
       (example_toplevel\<lparr>configure_list := [example_configure 6]\<rparr>) 7
     = Inr ([Post_error Client_resource XDG_WM_BASE_ERROR_INVALID_SURFACE_STATE],
            example_toplevel\<lparr>configure_list := []\<rparr>)"
  using ack_configure_walks_queue
          [of "example_toplevel\<lparr>configure_list :=
                 [example_configure 3, example_configure 4, example_configure 5]\<rparr>" 4]
        ack_configure_walks_queue
          [of "example_toplevel\<lparr>configure_list := [example_configure 6]\<rparr>" 7]
  by (simp add: example_toplevel_def example_configure_def calloc_xdg_surface_def
      calloc_toplevel_state_def)
section \<open>Scheduling a configure\<close>

text \<open>
  Claim C2, as stated, fails on a toplevel that has not been configured yet: pending
  equals current, the queue is empty and no idle task is pending, and yet a serial is
  reserved and an idle task is scheduled.  This is the initial configure.
\<close>

theorem schedule_configure_unconfigured_counterexample:
  "role example_toplevel = WLR_XDG_SURFACE_ROLE_TOPLEVEL
   \<and> \<not> configure_idle example_toplevel
   \<and> configure_list example_toplevel = []
   \<and> pending (toplevel_state example_toplevel) = current (toplevel_state example_toplevel)
   \<and> width (pending (toplevel_state example_toplevel)) = current_width (surface example_toplevel)
   \<and> height (pending (toplevel_state example_toplevel)) = current_height (surface example_toplevel)
   \<and> wlr_xdg_surface_schedule_configure 0 example_toplevel =
       Inr (1, 1, [Event_loop_add_idle],
            example_toplevel\<lparr>configure_next_serial := 1, configure_idle := True\<rparr>)"
  by (simp add: example_toplevel_def calloc_xdg_surface_def example_base_def
      calloc_toplevel_state_def wlr_xdg_surface_schedule_configure_def pending_same_def
      wlr_xdg_surface_toplevel_state_compare_def wl_display_next_serial_def)

text \<open>
  Claim C2, amended.  On a surface with a role the four branches are taken on
  \<open>pending_same\<close>: with an idle task pending, the reserved serial is returned and
  nothing is scheduled when \<open>pending_same\<close> is false, and the idle task is cancelled and
  0 returned when it is true; with no idle task pending, 0 is returned and nothing is
  scheduled when \<open>pending_same\<close> is true, and otherwise the next serial of the display
  is reserved, one idle task is scheduled and that serial is returned.  \<open>pending_same\<close>
  is false for a popup and for a toplevel that has not been configured; for a configured
  toplevel with a nonempty queue it says that the four flags of pending are those of the
  last queued configure and that the pending size is the last queued size or \<open>(0,0)\<close>;
  for a configured toplevel with an empty queue it fails when a flag of pending differs
  from current, and holds when the flags agree and the pending size is \<open>(0,0)\<close>.
\<close>

theorem schedule_configure_branches:
  assumes "role s \<noteq> WLR_XDG_SURFACE_ROLE_NONE"
  shows "wlr_xdg_surface_schedule_configure d s =
           (if configure_idle s
            then (if pending_same s
                  then Inr (0, d, [Event_source_remove], s\<lparr>configure_idle := False\<rparr>)
                  else Inr (configure_next_serial s, d, [], s))
            else (if pending_same s
                  then Inr (0, d, [], s)
                  else Inr (d + 1, d + 1, [Event_loop_add_idle],
                            s\<lparr>configure_next_serial := d + 1, configure_idle := True\<rparr>)))
         \<and> (role s = WLR_XDG_SURFACE_ROLE_POPUP \<longrightarrow> \<not> pending_same s)
         \<and> (\<not> configured s \<longrightarrow> \<not> pending_same s)
         \<and> (role s = WLR_XDG_SURFACE_ROLE_TOPLEVEL \<and> configured s \<and> configure_list s \<noteq> [] \<longrightarrow>
              (pending_same s \<longleftrightarrow>
                 activated (pending (toplevel_state s)) = activated (state (last (configure_list s)))
               \<and> fullscreen (pending (toplevel_state s)) = fullscreen (state (last (configure_list s)))
               \<and> maximized (pending (toplevel_state s)) = maximized (state (last (configure_list s)))
               \<and> resizing (pending (toplevel_state s)) = resizing (state (last (configure_list s)))
               \<and> (width (pending (toplevel_state s)) = width (state (last (configure_list s)))
                    \<and> height (pending (toplevel_state s)) = height (state (last (configure_list s)))
                  \<or> width (pending (toplevel_state s)) = 0
                    \<and> height (pending (toplevel_state s)) = 0)))
         \<and> (role s = WLR_XDG_SURFACE_ROLE_TOPLEVEL \<and> configured s \<and> configure_list s = [] \<longrightarrow>
              (pending_same s \<longrightarrow>
                 activated (pending (toplevel_state s)) = activated (current (toplevel_state s))
               \<and> fullscreen (pending (toplevel_state s)) = fullscreen (current (toplevel_state s))
               \<and> maximized (pending (toplevel_state s)) = maximized (current (toplevel_state s))
               \<and> resizing (pending (toplevel_state s)) = resizing (current (toplevel_state s)))
            \<and> (activated (pending (toplevel_state s)) = activated (current (toplevel_state s))
               \<and> fullscreen (pending (toplevel_state s)) = fullscreen (current (toplevel_state s))
               \<and> maximized (pending (toplevel_state s)) = maximized (current (toplevel_state s))
               \<and> resizing (pending (toplevel_state s)) = resizing (current (toplevel_state s))
               \<and> width (pending (toplevel_state s)) = 0
               \<and> height (pending (toplevel_state s)) = 0 \<longrightarrow> pending_same s))"
proof -
  have branches: "wlr_xdg_surface_schedule_configure d s =
           (if configure_idle s
            then (if pending_same s
                  then Inr (0, d, [Event_source_remove], s\<lparr>configure_idle := False\<rparr>)
                  else Inr (configure_next_serial s, d, [], s))
            else (if pending_same s
                  then Inr (0, d, [], s)
                  else Inr (d + 1, d + 1, [Event_loop_add_idle],
                            s\<lparr>configure_next_serial := d + 1, configure_idle := True\<rparr>)))"
    using assms
    by (simp add: wlr_xdg_surface_schedule_configure_def wl_display_next_serial_def Let_def)
  have popup: "role s = WLR_XDG_SURFACE_ROLE_POPUP \<longrightarrow> \<not> pending_same s"
    by (simp add: pending_same_def)
  have unconfigured: "\<not> configured s \<longrightarrow> \<not> pending_same s"
    by (cases "role s")
      (simp_all add: pending_same_def wlr_xdg_surface_toplevel_state_compare_def)
  have queued: "role s = WLR_XDG_SURFACE_ROLE_TOPLEVEL \<and> configured s \<and> configure_list s \<noteq> [] \<longrightarrow>
              (pending_same s \<longleftrightarrow>
                 activated (pending (toplevel_state s)) = activated (state (last (configure_list s)))
               \<and> fullscreen (pending (toplevel_state s)) = fullscreen (state (last (configure_list s)))
               \<and> maximized (pending (toplevel_state s)) = maximized (state (last (configure_list s)))
               \<and> resizing (pending (toplevel_state s)) = resizing (state (last (configure_list s)))
               \<and> (width (pending (toplevel_state s)) = width (state (last (configure_list s)))
                    \<and> height (pending (toplevel_state s)) = height (state (last (configure_list s)))
                  \<or> width (pending (toplevel_state s)) = 0
                    \<and> height (pending (toplevel_state s)) = 0))"
    by (auto simp: pending_same_def wlr_xdg_surface_toplevel_state_compare_def Let_def)
  have empty: "role s = WLR_XDG_SURFACE_ROLE_TOPLEVEL \<and> configured s \<and> configure_list s = [] \<longrightarrow>
              (pending_same s \<longrightarrow>
                 activated (pending (toplevel_state s)) = activated (current (toplevel_state s))
               \<and> fullscreen (pending (toplevel_state s)) = fullscreen (current (toplevel_state s))
               \<and> maximized (pending (toplevel_state s)) = maximized (current (toplevel_state s))
               \<and> resizing (pending (toplevel_state s)) = resizing (current (toplevel_state s)))
            \<and> (activated (pending (toplevel_state s)) = activated (current (toplevel_state s))
               \<and> fullscreen (pending (toplevel_state s)) = fullscreen (current (toplevel_state s))
               \<and> maximized (pending (toplevel_state s)) = maximized (current (toplevel_state s))
               \<and> resizing (pending (toplevel_state s)) = resizing (current (toplevel_state s))
               \<and> width (pending (toplevel_state s)) = 0
               \<and> height (pending (toplevel_state s)) = 0 \<longrightarrow> pending_same s)"
    by (auto simp: pending_same_def wlr_xdg_surface_toplevel_state_compare_def Let_def
        split: if_splits)
  from branches popup unconfigured queued empty show ?thesis
    by (intro conjI)
qed

theorem schedule_configure_branches_witness:
  "wlr_xdg_surface_schedule_configure 41
     (example_toplevel
        \<lparr>configured := True,
         configure_list := [example_configure 40],
         toplevel_state := (toplevel_state example_toplevel)
           \<lparr>pending := calloc_toplevel_state\<lparr>activated := True\<rparr>\<rparr>\<rparr>)
   = Inr (42, 42, [Event_loop_add_idle],
          example_toplevel
            \<lparr>configured := True,
             configure_list := [example_configure 40],
             toplevel_state := (toplevel_state example_toplevel)
               \<lparr>pending := calloc_toplevel_state\<lparr>activated := True\<rparr>\<rparr>,
             configure_next_serial := 42, configure_idle := True\<rparr>)"
  using schedule_configure_branches
          [of "example_toplevel
                 \<lparr>configured := True,
                  configure_list := [example_configure 40],
                  toplevel_state := (toplevel_state example_toplevel)
                    \<lparr>pending := calloc_toplevel_state\<lparr>activated := True\<rparr>\<rparr>\<rparr>" 41]
  by (simp add: example_toplevel_def calloc_xdg_surface_def example_configure_def
      calloc_toplevel_state_def)

section \<open>The comparison of toplevel states\<close>

text \<open>
  Claim C3 is what the comparison is meant to do, and not what it does: with an empty
  queue the height of pending is compared with the \<^emph>\<open>width\<close> of the underlying surface.
  A configured toplevel whose pending state is its current state, of size 800 by 600 on
  a surface of 800 by 600 pixels, is found different; with a pending size of 800 by 800
  on the same surface it is found the same.
\<close>

theorem state_compare_height_from_width:
  "wlr_xdg_surface_toplevel_state_compare
     (example_toplevel
        \<lparr>configured := True,
         surface := \<lparr>has_buffer = True, current_width = 800, current_height = 600\<rparr>,
         toplevel_state := (toplevel_state example_toplevel)
           \<lparr>pending := calloc_toplevel_state\<lparr>width := 800, height := 600\<rparr>,
            current := calloc_toplevel_state\<lparr>width := 800, height := 600\<rparr>\<rparr>\<rparr>) = False
   \<and> wlr_xdg_surface_toplevel_state_compare
     (example_toplevel
        \<lparr>configured := True,
         surface := \<lparr>has_buffer = True, current_width = 800, current_height = 600\<rparr>,
         toplevel_state := (toplevel_state example_toplevel)
           \<lparr>pending := calloc_toplevel_state\<lparr>width := 800, height := 800\<rparr>,
            current := calloc_toplevel_state\<lparr>width := 800, height := 600\<rparr>\<rparr>\<rparr>) = True"
  by (simp add: example_toplevel_def calloc_xdg_surface_def calloc_toplevel_state_def
      wlr_xdg_surface_toplevel_state_compare_def)
section \<open>Sending a toplevel configure\<close>

lemma wl_array_add_states_enough:
  "length (filter fst xs) \<le> mem \<Longrightarrow>
   wl_array_add_states mem xs acc = Some (acc @ map snd (filter fst xs))"
proof (induction xs arbitrary: mem acc)
  case Nil
  then show ?case by simp
next
  case (Cons x xs)
  obtain b f where x: "x = (b, f)" by (cases x)
  show ?case
  proof (cases b)
    case True
    with Cons.prems x obtain m where m: "mem = Suc m" and le: "length (filter fst xs) \<le> m"
      by (cases mem) auto
    from Cons.IH [OF le] True x m show ?thesis by simp
  next
    case False
    with Cons.prems x have "length (filter fst xs) \<le> mem" by simp
    from Cons.IH [OF this] False x show ?thesis by simp
  qed
qed

text \<open>
  Claim C4, as stated, fails on the fallback of the size: a pending size of 800 by 0 is
  not \<open>(0,0)\<close>, and yet the size that is sent is the one of the window geometry.
\<close>

theorem send_configure_fallback_counterexample:
  "(width (pending (toplevel_state
      (example_toplevel
         \<lparr>geometry := \<lparr>box_x = 0, box_y = 0, box_width = 640, box_height = 480\<rparr>,
          toplevel_state := (toplevel_state example_toplevel)
            \<lparr>pending := calloc_toplevel_state\<lparr>width := 800, height := 0\<rparr>\<rparr>\<rparr>)))
    \<noteq> 0)
   \<and> wlr_xdg_toplevel_send_configure 4
       (example_toplevel
          \<lparr>geometry := \<lparr>box_x = 0, box_y = 0, box_width = 640, box_height = 480\<rparr>,
           toplevel_state := (toplevel_state example_toplevel)
             \<lparr>pending := calloc_toplevel_state\<lparr>width := 800, height := 0\<rparr>\<rparr>\<rparr>)
       (example_configure 1)
     = Inr ([Toplevel_send_configure 640 480 []],
            \<lparr>serial = 1, state = calloc_toplevel_state\<lparr>width := 800, height := 0\<rparr>\<rparr>)"
  by (simp add: example_toplevel_def calloc_xdg_surface_def calloc_toplevel_state_def
      example_configure_def wlr_xdg_toplevel_send_configure_def)

text \<open>
  Claim C4, amended.  For a toplevel, when the allocator grants one request for each flag
  that is set in pending, \<^verbatim>\<open>wlr_xdg_toplevel_send_configure\<close> sends one configure
  whose states are exactly the flags set in pending, in the order \<open>MAXIMIZED\<close>,
  \<open>FULLSCREEN\<close>, \<open>RESIZING\<close>, \<open>ACTIVATED\<close>, and whose size is the pending size
  when both the pending width and the pending height are nonzero, and the size of the
  committed window geometry when the pending width or the pending height is 0.  The
  pending state is copied into the queue entry.
\<close>

theorem toplevel_send_configure_wire:
  assumes "role s = WLR_XDG_SURFACE_ROLE_TOPLEVEL"
    and "length (filter id [maximized (pending (toplevel_state s)),
                            fullscreen (pending (toplevel_state s)),
                            resizing (pending (toplevel_state s)),
                            activated (pending (toplevel_state s))]) \<le> mem"
  shows "wlr_xdg_toplevel_send_configure mem s c =
           Inr ([Toplevel_send_configure
                   (if width (pending (toplevel_state s)) = 0
                       \<or> height (pending (toplevel_state s)) = 0
                    then box_width (geometry s) else width (pending (toplevel_state s)))
                   (if width (pending (toplevel_state s)) = 0
                       \<or> height (pending (toplevel_state s)) = 0
                    then box_height (geometry s) else height (pending (toplevel_state s)))
                   ((if maximized (pending (toplevel_state s))
                     then [XDG_TOPLEVEL_STATE_MAXIMIZED] else [])
                    @ (if fullscreen (pending (toplevel_state s))
                       then [XDG_TOPLEVEL_STATE_FULLSCREEN] else [])
                    @ (if resizing (pending (toplevel_state s))
                       then [XDG_TOPLEVEL_STATE_RESIZING] else [])
                    @ (if activated (pending (toplevel_state s))
                       then [XDG_TOPLEVEL_STATE_ACTIVATED] else []))],
                c\<lparr>state := pending (toplevel_state s)\<rparr>)"
proof -
  let ?p = "pending (toplevel_state s)"
  let ?xs = "[(maximized ?p, XDG_TOPLEVEL_STATE_MAXIMIZED),
              (fullscreen ?p, XDG_TOPLEVEL_STATE_FULLSCREEN),
              (resizing ?p, XDG_TOPLEVEL_STATE_RESIZING),
              (activated ?p, XDG_TOPLEVEL_STATE_ACTIVATED)]"
  have "length (filter fst ?xs) \<le> mem"
    using assms(2) by (simp split: if_splits)
  then have "wl_array_add_states mem ?xs [] = Some ([] @ map snd (filter fst ?xs))"
    by (rule wl_array_add_states_enough)
  then have states: "wl_array_add_states mem ?xs [] =
      Some ((if maximized ?p then [XDG_TOPLEVEL_STATE_MAXIMIZED] else [])
            @ (if fullscreen ?p then [XDG_TOPLEVEL_STATE_FULLSCREEN] else [])
            @ (if resizing ?p then [XDG_TOPLEVEL_STATE_RESIZING] else [])
            @ (if activated ?p then [XDG_TOPLEVEL_STATE_ACTIVATED] else []))"
    by simp
  show ?thesis
    unfolding wlr_xdg_toplevel_send_configure_def Let_def states
    using assms(1) by simp
qed

theorem toplevel_send_configure_wire_witness:
  "wlr_xdg_toplevel_send_configure 2
     (example_toplevel
        \<lparr>toplevel_state := (toplevel_state example_toplevel)
           \<lparr>pending := calloc_toplevel_state
              \<lparr>maximized := True, activated := True, width := 1024, height := 768\<rparr>\<rparr>\<rparr>)
     (example_configure 2)
   = Inr ([Toplevel_send_configure 1024 768
             [XDG_TOPLEVEL_STATE_MAXIMIZED, XDG_TOPLEVEL_STATE_ACTIVATED]],
          \<lparr>serial = 2,
           state = calloc_toplevel_state
             \<lparr>maximized := True, activated := True, width := 1024, height := 768\<rparr>\<rparr>)"
  using toplevel_send_configure_wire
          [of "example_toplevel
                 \<lparr>toplevel_state := (toplevel_state example_toplevel)
                    \<lparr>pending := calloc_toplevel_state
                       \<lparr>maximized := True, activated := True,
                        width := 1024, height := 768\<rparr>\<rparr>\<rparr>"
              2 "example_configure 2"]
  by (simp add: example_toplevel_def calloc_xdg_surface_def calloc_toplevel_state_def
      example_configure_def)

section \<open>Requests of the toplevel role that set state\<close>

text \<open>
  Claim C8, as stated, fails for \<^verbatim>\<open>set_max_size\<close> and \<^verbatim>\<open>set_min_size\<close>, which emit
  no signal, and for \<^verbatim>\<open>set_minimized\<close>, which leaves \<^verbatim>\<open>next\<close> as it is.
\<close>

theorem set_max_size_no_signal_counterexample:
  "fst (xdg_toplevel_protocol_set_max_size example_toplevel 640 480) = []
   \<and> fst (xdg_toplevel_protocol_set_min_size example_toplevel 640 480) = []
   \<and> next_state (toplevel_state (snd (xdg_toplevel_protocol_set_minimized example_toplevel)))
       = next_state (toplevel_state example_toplevel)"
  by (simp add: xdg_toplevel_protocol_set_max_size_def xdg_toplevel_protocol_set_min_size_def
      xdg_toplevel_protocol_set_minimized_def)

text \<open>
  Claim C8, amended.  \<^verbatim>\<open>set_maximized\<close>, \<^verbatim>\<open>unset_maximized\<close>, \<^verbatim>\<open>set_fullscreen\<close>
  and \<^verbatim>\<open>unset_fullscreen\<close> set the field of \<^verbatim>\<open>next\<close> and emit \<^verbatim>\<open>request_maximize\<close>
  or \<^verbatim>\<open>request_fullscreen\<close>; \<^verbatim>\<open>set_max_size\<close> and \<^verbatim>\<open>set_min_size\<close> set the two
  fields of \<^verbatim>\<open>next\<close> and emit nothing; \<^verbatim>\<open>set_minimized\<close> emits
  \<^verbatim>\<open>request_minimize\<close> and changes no snapshot.  Nothing else of the surface changes:
  the pending and the current snapshot are as before.
\<close>

theorem state_requests_update_next:
  "xdg_toplevel_protocol_set_maximized s =
     ([Signal_emit Request_maximize],
      s\<lparr>toplevel_state := (toplevel_state s)
          \<lparr>next_state := (next_state (toplevel_state s))\<lparr>maximized := True\<rparr>\<rparr>\<rparr>)
   \<and> xdg_toplevel_protocol_unset_maximized s =
     ([Signal_emit Request_maximize],
      s\<lparr>toplevel_state := (toplevel_state s)
          \<lparr>next_state := (next_state (toplevel_state s))\<lparr>maximized := False\<rparr>\<rparr>\<rparr>)
   \<and> xdg_toplevel_protocol_set_fullscreen s output =
     ([Signal_emit (Request_fullscreen True output)],
      s\<lparr>toplevel_state := (toplevel_state s)
          \<lparr>next_state := (next_state (toplevel_state s))\<lparr>fullscreen := True\<rparr>\<rparr>\<rparr>)
   \<and> xdg_toplevel_protocol_unset_fullscreen s =
     ([Signal_emit (Request_fullscreen False None)],
      s\<lparr>toplevel_state := (toplevel_state s)
          \<lparr>next_state := (next_state (toplevel_state s))\<lparr>fullscreen := False\<rparr>\<rparr>\<rparr>)
   \<and> xdg_toplevel_protocol_set_max_size s w h =
     ([], s\<lparr>toplevel_state := (toplevel_state s)
              \<lparr>next_state := (next_state (toplevel_state s))
                 \<lparr>max_width := w, max_height := h\<rparr>\<rparr>\<rparr>)
   \<and> xdg_toplevel_protocol_set_min_size s w h =
     ([], s\<lparr>toplevel_state := (toplevel_state s)
              \<lparr>next_state := (next_state (toplevel_state s))
                 \<lparr>min_width := w, min_height := h\<rparr>\<rparr>\<rparr>)
   \<and> xdg_toplevel_protocol_set_minimized s = ([Signal_emit Request_minimize], s)
   \<and> pending (toplevel_state (snd (xdg_toplevel_protocol_set_maximized s)))
       = pending (toplevel_state s)
   \<and> current (toplevel_state (snd (xdg_toplevel_protocol_set_maximized s)))
       = current (toplevel_state s)
   \<and> pending (toplevel_state (snd (xdg_toplevel_protocol_unset_maximized s)))
       = pending (toplevel_state s)
   \<and> current (toplevel_state (snd (xdg_toplevel_protocol_unset_maximized s)))
       = current (toplevel_state s)
   \<and> pending (toplevel_state (snd (xdg_toplevel_protocol_set_fullscreen s output)))
       = pending (toplevel_state s)
   \<and> current (toplevel_state (snd (xdg_toplevel_protocol_set_fullscreen s output)))
       = current (toplevel_state s)
   \<and> pending (toplevel_state (snd (xdg_toplevel_protocol_unset_fullscreen s)))
       = pending (toplevel_state s)
   \<and> current (toplevel_state (snd (xdg_toplevel_protocol_unset_fullscreen s)))
       = current (toplevel_state s)
   \<and> pending (toplevel_state (snd (xdg_toplevel_protocol_set_max_size s w h)))
       = pending (toplevel_state s)
   \<and> current (toplevel_state (snd (xdg_toplevel_protocol_set_max_size s w h)))
       = current (toplevel_state s)
   \<and> pending (toplevel_state (snd (xdg_toplevel_protocol_set_min_size s w h)))
       = pending (toplevel_state s)
   \<and> current (toplevel_state (snd (xdg_toplevel_protocol_set_min_size s w h)))
       = current (toplevel_state s)
   \<and> pending (toplevel_state (snd (xdg_toplevel_protocol_set_minimized s)))
       = pending (toplevel_state s)
   \<and> current (toplevel_state (snd (xdg_toplevel_protocol_set_minimized s)))
       = current (toplevel_state s)"
  by (simp add: xdg_toplevel_protocol_set_maximized_def xdg_toplevel_protocol_unset_maximized_def
      xdg_toplevel_protocol_set_fullscreen_def xdg_toplevel_protocol_unset_fullscreen_def
      xdg_toplevel_protocol_set_max_size_def xdg_toplevel_protocol_set_min_size_def
      xdg_toplevel_protocol_set_minimized_def)
section \<open>Popup grabs\<close>

text \<open>
  Claim C6, as stated, fails where it says that a refused grab changes nothing: when the
  seat has no grab chain yet, \<^verbatim>\<open>xdg_shell_popup_grab_from_seat\<close> has allocated an
  empty one and linked it into the shell before the test that refuses the grab.  Here
  popup 3 asks for a grab while its parent, popup 2, has none.
\<close>

theorem grab_refused_registers_chain_counterexample:
  "popup_grabs example_popups = []
   \<and> xdg_popup_protocol_grab 1 example_popups 3 0 0 =
       Inr (example_popups
              \<lparr>popup_grabs := [\<lparr>grab_client = None, grab_seat = 0, grab_popups = []\<rparr>],
               effects := [Post_error Client_resource
                             XDG_WM_BASE_ERROR_NOT_THE_TOPMOST_POPUP]\<rparr>)"
  by (simp add: example_popups_def example_world_def example_popup_def
      calloc_xdg_surface_def xdg_popup_protocol_grab_def xdg_shell_popup_grab_from_seat_def
      xdg_popup_grab_get_topmost_def post_def Let_def)

text \<open>
  Claim C6, amended.  For a popup whose parent is a live surface, with memory for a
  grab chain: a grab on a mapped popup posts \<^verbatim>\<open>INVALID_GRAB\<close> on the popup and
  changes nothing.  Otherwise, when the seat has a chain, the grab is refused with
  \<^verbatim>\<open>NOT_THE_TOPMOST_POPUP\<close> on the client, and nothing changes, if the chain is nonempty
  and its topmost popup is not the parent, or the chain is empty and the parent is not a
  toplevel; when the seat has no chain, an empty one is linked into the shell, and the
  grab is refused in the same way, with no other change, if the parent is not a toplevel.
  A grab that is not refused records the client in the chain, pushes the popup on top of
  the chain, records the seat in the popup and starts the pointer grab and the keyboard
  grab on the seat.
\<close>

theorem popup_grab_outcomes:
  assumes "surfaces w sid = Some s"
    and "role s = WLR_XDG_SURFACE_ROLE_POPUP"
    and "surfaces w (parent (popup_state s)) = Some p"
    and "0 < mem"
  shows "(committed (popup_state s) \<longrightarrow>
            xdg_popup_protocol_grab mem w sid st n =
              Inr (w\<lparr>effects := effects w @
                       [Post_error Xdg_popup_resource XDG_POPUP_ERROR_INVALID_GRAB]\<rparr>))
         \<and> (\<not> committed (popup_state s) \<longrightarrow>
              (case find (\<lambda>g. grab_seat g = st) (popup_grabs w) of
                 Some g \<Rightarrow>
                   if (grab_popups g = [] \<and> role p \<noteq> WLR_XDG_SURFACE_ROLE_TOPLEVEL)
                      \<or> (grab_popups g \<noteq> [] \<and> hd (grab_popups g) \<noteq> parent (popup_state s))
                   then xdg_popup_protocol_grab mem w sid st n =
                          Inr (w\<lparr>effects := effects w @
                                   [Post_error Client_resource
                                      XDG_WM_BASE_ERROR_NOT_THE_TOPMOST_POPUP]\<rparr>)
                   else xdg_popup_protocol_grab mem w sid st n =
                          Inr (w\<lparr>popup_grabs :=
                                   grab_update st
                                     (\<lambda>g. g\<lparr>grab_client := Some (client s),
                                            grab_popups := sid # grab_popups g\<rparr>)
                                     (popup_grabs w),
                                 surfaces := (surfaces w)(sid \<mapsto>
                                   s\<lparr>popup_state := (popup_state s)\<lparr>seat := Some st\<rparr>\<rparr>),
                                 seats := (seats w)(st :=
                                   (seats w st)\<lparr>pointer_grab := Xdg_popup_grab,
                                               keyboard_grab := Xdg_popup_grab\<rparr>)\<rparr>)
               | None \<Rightarrow>
                   if role p \<noteq> WLR_XDG_SURFACE_ROLE_TOPLEVEL
                   then xdg_popup_protocol_grab mem w sid st n =
                          Inr (w\<lparr>popup_grabs :=
                                   \<lparr>grab_client = None, grab_seat = st, grab_popups = []\<rparr>
                                   # popup_grabs w,
                                 effects := effects w @
                                   [Post_error Client_resource
                                      XDG_WM_BASE_ERROR_NOT_THE_TOPMOST_POPUP]\<rparr>)
                   else xdg_popup_protocol_grab mem w sid st n =
                          Inr (w\<lparr>popup_grabs :=
                                   \<lparr>grab_client = Some (client s), grab_seat = st,
                                    grab_popups = [sid]\<rparr>
                                   # popup_grabs w,
                                 surfaces := (surfaces w)(sid \<mapsto>
                                   s\<lparr>popup_state := (popup_state s)\<lparr>seat := Some st\<rparr>\<rparr>),
                                 seats := (seats w)(st :=
                                   (seats w st)\<lparr>pointer_grab := Xdg_popup_grab,
                                               keyboard_grab := Xdg_popup_grab\<rparr>)\<rparr>)))"
proof (cases "committed (popup_state s)")
  case True
  with assms(1) show ?thesis
    by (simp add: xdg_popup_protocol_grab_def post_def)
next
  case False
  obtain m where mem: "mem = Suc m"
    using assms(4) by (cases mem) auto
  show ?thesis
  proof (cases "find (\<lambda>g. grab_seat g = st) (popup_grabs w)")
    case None
    with False assms(1,3) mem show ?thesis
      by (simp add: xdg_popup_protocol_grab_def xdg_shell_popup_grab_from_seat_def
          xdg_popup_grab_get_topmost_def post_def Let_def
          wlr_seat_pointer_start_grab_def wlr_seat_keyboard_start_grab_def)
  next
    case (Some g)
    show ?thesis
    proof (cases "grab_popups g")
      case Nil
      with Some False assms(1,3) show ?thesis
        by (simp add: xdg_popup_protocol_grab_def xdg_shell_popup_grab_from_seat_def
            xdg_popup_grab_get_topmost_def post_def Let_def
            wlr_seat_pointer_start_grab_def wlr_seat_keyboard_start_grab_def)
    next
      case (Cons top rest)
      with Some False assms(1,3) show ?thesis
        by (simp add: xdg_popup_protocol_grab_def xdg_shell_popup_grab_from_seat_def
            xdg_popup_grab_get_topmost_def post_def Let_def
            wlr_seat_pointer_start_grab_def wlr_seat_keyboard_start_grab_def)
    qed
  qed
qed

theorem popup_grab_outcomes_witness:
  "xdg_popup_protocol_grab 1 example_popups 2 0 0 =
     Inr (example_popups
            \<lparr>popup_grabs := [\<lparr>grab_client = Some 0, grab_seat = 0, grab_popups = [2]\<rparr>],
             surfaces := (surfaces example_popups)(2 \<mapsto>
               (example_popup 1)\<lparr>popups := [3],
                 popup_state := \<lparr>parent = 1, committed = False,
                                 popup_geometry = calloc_box, seat = Some 0\<rparr>\<rparr>),
             seats := (seats example_popups)(0 :=
               \<lparr>pointer_grab = Xdg_popup_grab, keyboard_grab = Xdg_popup_grab\<rparr>)\<rparr>)"
  using popup_grab_outcomes
          [of example_popups 2 "(example_popup 1)\<lparr>popups := [3]\<rparr>"
              "example_toplevel\<lparr>popups := [2]\<rparr>" 1 0 0]
  by (simp add: example_popups_def example_world_def example_popup_def example_toplevel_def
      calloc_xdg_surface_def)
section \<open>Destroying popups of a grab chain\<close>

lemma find_grab_update:
  assumes "\<And>g. grab_seat (f g) = grab_seat g"
  shows "find (\<lambda>g. grab_seat g = st) (grab_update st f gs) =
         map_option f (find (\<lambda>g. grab_seat g = st) gs)"
  by (induction gs) (simp_all add: assms)

lemma unlink_surface_fields:
  "popup_grabs (unlink_surface w sid cid) = popup_grabs w"
  "effects (unlink_surface w sid cid) = effects w"
  "surfaces (unlink_surface w sid cid) q = (if q = sid then None else surfaces w q)"
  by (simp_all add: unlink_surface_def Let_def split: option.split)

lemma unlink_popup_fields:
  "popup_grabs (unlink_popup w sid pid) = popup_grabs w"
  "effects (unlink_popup w sid pid) = effects w"
  by (simp_all add: unlink_popup_def split: option.split)

lemma unlink_popup_surfaces:
  "surfaces w q = None \<Longrightarrow> surfaces (unlink_popup w sid pid) q = None"
  "surfaces w q = Some a \<Longrightarrow>
   \<exists>b. surfaces (unlink_popup w sid pid) q = Some b
       \<and> role b = role a \<and> popup_state b = popup_state a"
  by (auto simp: unlink_popup_def split: option.split)

text \<open>
  The grab part of a destruction, for a popup whose seat has a chain: the error is
  posted exactly when the popup is not the topmost one, and the popup leaves the chain.
\<close>

lemma destroy_popup_grab_result:
  assumes "find (\<lambda>g. grab_seat g = st) (popup_grabs w) = Some g"
  shows "\<exists>w' es. destroy_popup_grab mem w sid st = Inr w'
           \<and> effects w' = effects w @ es
           \<and> es = (if xdg_popup_grab_get_topmost g \<noteq> Some sid
                    then [Post_error Client_resource XDG_WM_BASE_ERROR_NOT_THE_TOPMOST_POPUP]
                    else [])
           \<and> surfaces w' = surfaces w
           \<and> find (\<lambda>g. grab_seat g = st) (popup_grabs w') =
               Some (g\<lparr>grab_popups := remove1 sid (grab_popups g)\<rparr>)"
proof -
  have upd: "find (\<lambda>g. grab_seat g = st)
               (grab_update st (\<lambda>g. g\<lparr>grab_popups := remove1 sid (grab_popups g)\<rparr>)
                  (popup_grabs w)) =
             Some (g\<lparr>grab_popups := remove1 sid (grab_popups g)\<rparr>)"
    using assms by (simp add: find_grab_update)
  show ?thesis
    using assms upd
    by (simp add: destroy_popup_grab_def xdg_shell_popup_grab_from_seat_def post_def Let_def)
qed

lemma destroy_grabbed_popup:
  assumes s: "surfaces w sid = Some s"
    and popup: "role s = WLR_XDG_SURFACE_ROLE_POPUP"
    and seat: "seat (popup_state s) = Some st"
    and chain: "find (\<lambda>g. grab_seat g = st) (popup_grabs w) = Some g"
  shows "\<exists>w' es. xdg_surface_destroy mem w sid = Inr w'
           \<and> effects w' = effects w @ es
           \<and> (Post_error Client_resource XDG_WM_BASE_ERROR_NOT_THE_TOPMOST_POPUP \<in> set es
                \<longleftrightarrow> xdg_popup_grab_get_topmost g \<noteq> Some sid)
           \<and> find (\<lambda>g. grab_seat g = st) (popup_grabs w') =
               Some (g\<lparr>grab_popups := remove1 sid (grab_popups g)\<rparr>)
           \<and> surfaces w' sid = None
           \<and> (\<forall>q a. q \<noteq> sid \<longrightarrow> surfaces w q = Some a \<longrightarrow>
                (\<exists>b. surfaces w' q = Some b \<and> role b = role a
                     \<and> popup_state b = popup_state a))"
proof -
  define w1 where
    "w1 = (if configure_idle s then post Event_source_remove (post (Signal_emit Destroy) w)
           else post (Signal_emit Destroy) w)"
  define es1 where
    "es1 = (if configure_idle s then [Signal_emit Destroy, Event_source_remove]
            else [Signal_emit Destroy])"
  have w1: "effects w1 = effects w @ es1" "surfaces w1 = surfaces w"
    "popup_grabs w1 = popup_grabs w"
    by (simp_all add: w1_def es1_def post_def)
  from chain w1(3) have "find (\<lambda>g. grab_seat g = st) (popup_grabs w1) = Some g"
    by simp
  from destroy_popup_grab_result [OF this, of mem sid]
  obtain w2 es2 where w2: "destroy_popup_grab mem w1 sid st = Inr w2"
    and es2: "effects w2 = effects w1 @ es2"
      "es2 = (if xdg_popup_grab_get_topmost g \<noteq> Some sid
              then [Post_error Client_resource XDG_WM_BASE_ERROR_NOT_THE_TOPMOST_POPUP]
              else [])"
    and surf2: "surfaces w2 = surfaces w1"
    and chain2: "find (\<lambda>g. grab_seat g = st) (popup_grabs w2) =
                   Some (g\<lparr>grab_popups := remove1 sid (grab_popups g)\<rparr>)"
    by blast
  define w3 where
    "w3 = unlink_surface (unlink_popup w2 sid (parent (popup_state s))) sid (client s)"
  have run: "xdg_surface_destroy mem w sid = Inr w3"
    using s popup seat w2
    by (simp add: xdg_surface_destroy_def Let_def w1_def [symmetric] w3_def)
  have eff3: "effects w3 = effects w @ (es1 @ es2)"
    by (simp add: w3_def unlink_surface_fields unlink_popup_fields es2(1) w1(1))
  have err: "Post_error Client_resource XDG_WM_BASE_ERROR_NOT_THE_TOPMOST_POPUP \<in> set (es1 @ es2)
               \<longleftrightarrow> xdg_popup_grab_get_topmost g \<noteq> Some sid"
    by (simp add: es1_def es2(2))
  have chain3: "find (\<lambda>g. grab_seat g = st) (popup_grabs w3) =
                  Some (g\<lparr>grab_popups := remove1 sid (grab_popups g)\<rparr>)"
    by (simp add: w3_def unlink_surface_fields unlink_popup_fields chain2)
  have gone: "surfaces w3 sid = None"
    by (simp add: w3_def unlink_surface_fields)
  have others: "\<exists>b. surfaces w3 q = Some b \<and> role b = role a \<and> popup_state b = popup_state a"
    if "q \<noteq> sid" "surfaces w q = Some a" for q a
  proof -
    from that(2) surf2 w1(2) have "surfaces w2 q = Some a" by simp
    from unlink_popup_surfaces(2) [OF this, of sid "parent (popup_state s)"] that(1)
    show ?thesis
      by (simp add: w3_def unlink_surface_fields)
  qed
  from run eff3 err chain3 gone others show ?thesis
    by blast
qed

text \<open>Destroying the popups of a chain from the top down posts no error.\<close>

lemma destroy_all_from_top:
  assumes "find (\<lambda>g. grab_seat g = st) (popup_grabs w) = Some g"
    and "grab_popups g = ps"
    and "distinct ps"
    and "\<forall>q\<in>set ps. \<exists>a. surfaces w q = Some a \<and> role a = WLR_XDG_SURFACE_ROLE_POPUP
                          \<and> seat (popup_state a) = Some st"
  shows "\<exists>w' es. destroy_all mem w ps = Inr w'
           \<and> effects w' = effects w @ es
           \<and> Post_error Client_resource XDG_WM_BASE_ERROR_NOT_THE_TOPMOST_POPUP \<notin> set es"
  using assms
proof (induction ps arbitrary: w g)
  case Nil
  then show ?case by simp
next
  case (Cons p ps)
  from Cons.prems(4) obtain a where a: "surfaces w p = Some a"
    "role a = WLR_XDG_SURFACE_ROLE_POPUP" "seat (popup_state a) = Some st"
    by auto
  from destroy_grabbed_popup [OF a Cons.prems(1), of mem]
  obtain w1 es1 where run1: "xdg_surface_destroy mem w p = Inr w1"
    and eff1: "effects w1 = effects w @ es1"
    and err1: "Post_error Client_resource XDG_WM_BASE_ERROR_NOT_THE_TOPMOST_POPUP \<in> set es1
                 \<longleftrightarrow> xdg_popup_grab_get_topmost g \<noteq> Some p"
    and chain1: "find (\<lambda>g. grab_seat g = st) (popup_grabs w1) =
                   Some (g\<lparr>grab_popups := remove1 p (grab_popups g)\<rparr>)"
    and others1: "\<forall>q a. q \<noteq> p \<longrightarrow> surfaces w q = Some a \<longrightarrow>
                    (\<exists>b. surfaces w1 q = Some b \<and> role b = role a
                         \<and> popup_state b = popup_state a)"
    by blast
  from Cons.prems(2) have top: "xdg_popup_grab_get_topmost g = Some p"
    by (simp add: xdg_popup_grab_get_topmost_def)
  with err1 have clean1:
    "Post_error Client_resource XDG_WM_BASE_ERROR_NOT_THE_TOPMOST_POPUP \<notin> set es1"
    by simp
  have rest: "grab_popups (g\<lparr>grab_popups := remove1 p (grab_popups g)\<rparr>) = ps"
    using Cons.prems(2) by simp
  have dist: "distinct ps" and notin: "p \<notin> set ps"
    using Cons.prems(3) by simp_all
  have live: "\<forall>q\<in>set ps. \<exists>a. surfaces w1 q = Some a \<and> role a = WLR_XDG_SURFACE_ROLE_POPUP
                               \<and> seat (popup_state a) = Some st"
  proof
    fix q assume q: "q \<in> set ps"
    with notin have "q \<noteq> p" by auto
    moreover from q Cons.prems(4) obtain c where c: "surfaces w q = Some c"
      "role c = WLR_XDG_SURFACE_ROLE_POPUP" "seat (popup_state c) = Some st"
      by auto
    ultimately obtain b where "surfaces w1 q = Some b" "role b = role c"
      "popup_state b = popup_state c"
      using others1 by blast
    with c show "\<exists>a. surfaces w1 q = Some a \<and> role a = WLR_XDG_SURFACE_ROLE_POPUP
                      \<and> seat (popup_state a) = Some st"
      by simp
  qed
  from Cons.IH [OF chain1 rest dist live]
  obtain w' es where run: "destroy_all mem w1 ps = Inr w'"
    and eff: "effects w' = effects w1 @ es"
    and clean: "Post_error Client_resource XDG_WM_BASE_ERROR_NOT_THE_TOPMOST_POPUP \<notin> set es"
    by blast
  from run1 run have "destroy_all mem w (p # ps) = Inr w'" by simp
  moreover from eff1 eff have "effects w' = effects w @ (es1 @ es)" by simp
  moreover from clean1 clean
  have "Post_error Client_resource XDG_WM_BASE_ERROR_NOT_THE_TOPMOST_POPUP \<notin> set (es1 @ es)"
    by simp
  ultimately show ?case by blast
qed

text \<open>
  Claim C7.  Let a popup hold a grab on a seat, and let the seat have its chain.
  Destroying the popup while it is not the topmost popup of the chain posts
  \<^verbatim>\<open>NOT_THE_TOPMOST_POPUP\<close> on the client.  Destroying the popups of a chain one after
  the other from the topmost down, that is the last one pushed first, completes and
  posts no such error.
\<close>

theorem destroy_popup_topmost_rule:
  assumes "find (\<lambda>g. grab_seat g = st) (popup_grabs w) = Some g"
  shows "(surfaces w sid = Some s \<and> role s = WLR_XDG_SURFACE_ROLE_POPUP
            \<and> seat (popup_state s) = Some st
            \<and> xdg_popup_grab_get_topmost g \<noteq> Some sid \<longrightarrow>
          (\<exists>w' es. xdg_surface_destroy mem w sid = Inr w'
             \<and> effects w' = effects w @ es
             \<and> Post_error Client_resource XDG_WM_BASE_ERROR_NOT_THE_TOPMOST_POPUP \<in> set es))
         \<and> (distinct (grab_popups g)
              \<and> (\<forall>q\<in>set (grab_popups g).
                    \<exists>a. surfaces w q = Some a \<and> role a = WLR_XDG_SURFACE_ROLE_POPUP
                        \<and> seat (popup_state a) = Some st) \<longrightarrow>
            (\<exists>w' es. destroy_all mem w (grab_popups g) = Inr w'
               \<and> effects w' = effects w @ es
               \<and> Post_error Client_resource XDG_WM_BASE_ERROR_NOT_THE_TOPMOST_POPUP \<notin> set es))"
proof (intro conjI impI)
  assume h: "surfaces w sid = Some s \<and> role s = WLR_XDG_SURFACE_ROLE_POPUP
            \<and> seat (popup_state s) = Some st
            \<and> xdg_popup_grab_get_topmost g \<noteq> Some sid"
  then have s: "surfaces w sid = Some s" and popup: "role s = WLR_XDG_SURFACE_ROLE_POPUP"
    and seat: "seat (popup_state s) = Some st"
    and below: "xdg_popup_grab_get_topmost g \<noteq> Some sid"
    by simp_all
  from destroy_grabbed_popup [OF s popup seat assms, of mem] below
  show "\<exists>w' es. xdg_surface_destroy mem w sid = Inr w'
             \<and> effects w' = effects w @ es
             \<and> Post_error Client_resource XDG_WM_BASE_ERROR_NOT_THE_TOPMOST_POPUP \<in> set es"
    by blast
next
  assume h: "distinct (grab_popups g)
              \<and> (\<forall>q\<in>set (grab_popups g).
                    \<exists>a. surfaces w q = Some a \<and> role a = WLR_XDG_SURFACE_ROLE_POPUP
                        \<and> seat (popup_state a) = Some st)"
  then have d: "distinct (grab_popups g)"
    and live: "\<forall>q\<in>set (grab_popups g).
                    \<exists>a. surfaces w q = Some a \<and> role a = WLR_XDG_SURFACE_ROLE_POPUP
                        \<and> seat (popup_state a) = Some st"
    by simp_all
  from destroy_all_from_top [OF assms refl d live, of mem]
  show "\<exists>w' es. destroy_all mem w (grab_popups g) = Inr w'
               \<and> effects w' = effects w @ es
               \<and> Post_error Client_resource XDG_WM_BASE_ERROR_NOT_THE_TOPMOST_POPUP \<notin> set es"
    by blast
qed

theorem destroy_popup_topmost_rule_witness:
  "(\<exists>w' es. xdg_surface_destroy 0 example_chain 2 = Inr w'
      \<and> effects w' = effects example_chain @ es
      \<and> Post_error Client_resource XDG_WM_BASE_ERROR_NOT_THE_TOPMOST_POPUP \<in> set es)
   \<and> (\<exists>w' es. destroy_all 0 example_chain [3, 2] = Inr w'
        \<and> effects w' = effects example_chain @ es
        \<and> Post_error Client_resource XDG_WM_BASE_ERROR_NOT_THE_TOPMOST_POPUP \<notin> set es)"
  using destroy_popup_topmost_rule
          [of 0 example_chain "\<lparr>grab_client = Some 0, grab_seat = 0, grab_popups = [3, 2]\<rparr>"
              2 "(example_popup 1)
                   \<lparr>popups := [3],
                    popup_state := \<lparr>parent = 1, committed = False,
                                    popup_geometry = calloc_box, seat = Some 0\<rparr>\<rparr>" 0]
  by (simp add: example_chain_def example_world_def example_popup_def
      calloc_xdg_surface_def xdg_popup_grab_get_topmost_def)
section \<open>Buffers before the first acknowledged configure\<close>

lemma schedule_configure_effects:
  "wlr_xdg_surface_schedule_configure d s = Inr (r, d', es, s') \<Longrightarrow>
   es = [] \<or> es = [Event_source_remove] \<or> es = [Event_loop_add_idle]"
  by (auto simp: wlr_xdg_surface_schedule_configure_def Let_def split: if_splits)

lemma schedule_configure_returns:
  "role s \<noteq> WLR_XDG_SURFACE_ROLE_NONE \<Longrightarrow>
   \<exists>r d' es s'. wlr_xdg_surface_schedule_configure d s = Inr (r, d', es, s')
                 \<and> configured s' = configured s \<and> added s' = added s"
  by (simp add: wlr_xdg_surface_schedule_configure_def Let_def)

lemma handle_committed_accepts:
  assumes "\<not> (has_buffer (surface s) \<and> \<not> configured s)"
  shows "\<exists>d' es s'. handle_wlr_surface_committed d s = Inr (d', es, s')
           \<and> \<not> posts_unconfigured_buffer es"
proof -
  define s1 where "s1 = (if has_next_geometry s
                   then s\<lparr>has_next_geometry := False,
                          geometry := (geometry s)
                            \<lparr>box_x := box_x (next_geometry s),
                             box_y := box_y (next_geometry s),
                             box_width := box_width (next_geometry s),
                             box_height := box_height (next_geometry s)\<rparr>\<rparr>
                   else s)"
  have role1: "role s1 = role s"
    by (simp add: s1_def)
  have "\<exists>d' es s2. (case role s1 of
                    WLR_XDG_SURFACE_ROLE_NONE \<Rightarrow>
                      Inr (d, [Post_error Xdg_surface_resource XDG_SURFACE_ERROR_NOT_CONSTRUCTED], s1)
                  | WLR_XDG_SURFACE_ROLE_TOPLEVEL \<Rightarrow> wlr_xdg_surface_toplevel_committed d s1
                  | WLR_XDG_SURFACE_ROLE_POPUP \<Rightarrow> wlr_xdg_surface_popup_committed d s1)
               = Inr (d', es, s2) \<and> \<not> posts_unconfigured_buffer es"
  proof (cases "role s1")
    case WLR_XDG_SURFACE_ROLE_NONE
    then show ?thesis by (simp add: posts_unconfigured_buffer_def)
  next
    case WLR_XDG_SURFACE_ROLE_TOPLEVEL
    then have "role s1 \<noteq> WLR_XDG_SURFACE_ROLE_NONE" by simp
    from schedule_configure_returns [OF this, of d]
    obtain r d' es s' where sch: "wlr_xdg_surface_schedule_configure d s1 = Inr (r, d', es, s')"
      by blast
    from schedule_configure_effects [OF sch]
    have "\<not> posts_unconfigured_buffer es"
      by (auto simp: posts_unconfigured_buffer_def)
    with sch WLR_XDG_SURFACE_ROLE_TOPLEVEL show ?thesis
      by (simp add: wlr_xdg_surface_toplevel_committed_def posts_unconfigured_buffer_def)
  next
    case WLR_XDG_SURFACE_ROLE_POPUP
    then have "role s1 \<noteq> WLR_XDG_SURFACE_ROLE_NONE" by simp
    from schedule_configure_returns [OF this, of d]
    obtain r d' es s' where sch: "wlr_xdg_surface_schedule_configure d s1 = Inr (r, d', es, s')"
      by blast
    from schedule_configure_effects [OF sch]
    have "\<not> posts_unconfigured_buffer es"
      by (auto simp: posts_unconfigured_buffer_def)
    with sch WLR_XDG_SURFACE_ROLE_POPUP show ?thesis
      by (simp add: wlr_xdg_surface_popup_committed_def posts_unconfigured_buffer_def)
  qed
  then obtain d' es s2 where inner: "(case role s1 of
                    WLR_XDG_SURFACE_ROLE_NONE \<Rightarrow>
                      Inr (d, [Post_error Xdg_surface_resource XDG_SURFACE_ERROR_NOT_CONSTRUCTED], s1)
                  | WLR_XDG_SURFACE_ROLE_TOPLEVEL \<Rightarrow> wlr_xdg_surface_toplevel_committed d s1
                  | WLR_XDG_SURFACE_ROLE_POPUP \<Rightarrow> wlr_xdg_surface_popup_committed d s1)
               = Inr (d', es, s2)" and clean: "\<not> posts_unconfigured_buffer es"
    by blast
  have "handle_wlr_surface_committed d s =
          (if configured s2 \<and> \<not> added s2
           then Inr (d', es @ [Signal_emit New_surface], s2\<lparr>added := True\<rparr>)
           else Inr (d', es, s2))"
  proof -
    have cond: "(has_buffer (surface s) \<and> \<not> configured s) = False"
      using assms by simp
    show ?thesis
      unfolding handle_wlr_surface_committed_def Let_def cond if_False s1_def [symmetric] inner
      by simp
  qed
  with clean show ?thesis
    by (auto simp: posts_unconfigured_buffer_def)
qed

lemma ack_configure_no_unconfigured_buffer:
  "xdg_surface_ack_configure s n = Inr (es, s') \<Longrightarrow> \<not> posts_unconfigured_buffer es"
  by (auto simp: xdg_surface_ack_configure_def posts_unconfigured_buffer_def
      wlr_xdg_toplevel_ack_configure_def
      split: if_splits prod.splits option.splits wlr_xdg_surface_role.splits sum.splits)

lemma schedule_configure_no_unconfigured_buffer:
  "wlr_xdg_surface_schedule_configure d s = Inr (r, d', es, s') \<Longrightarrow>
   \<not> posts_unconfigured_buffer es"
  using schedule_configure_effects [of d s r d' es s']
  by (auto simp: posts_unconfigured_buffer_def)

lemma send_configure_no_unconfigured_buffer:
  "wlr_xdg_surface_send_configure mem s = Inr (es, s') \<Longrightarrow> \<not> posts_unconfigured_buffer es"
  by (auto simp: wlr_xdg_surface_send_configure_def wlr_xdg_toplevel_send_configure_def
      posts_unconfigured_buffer_def Let_def
      split: if_splits prod.splits option.splits wlr_xdg_surface_role.splits sum.splits
        nat.splits)

lemma grab_no_unconfigured_buffer:
  "xdg_popup_protocol_grab mem w sid st n = Inr w' \<Longrightarrow>
   \<exists>es. effects w' = effects w @ es \<and> \<not> posts_unconfigured_buffer es"
  by (auto simp: xdg_popup_protocol_grab_def xdg_shell_popup_grab_from_seat_def post_def
      posts_unconfigured_buffer_def Let_def
      split: if_splits prod.splits option.splits nat.splits)

lemma destroy_popup_grab_no_unconfigured_buffer:
  "destroy_popup_grab mem w sid st = Inr w' \<Longrightarrow>
   \<exists>es. effects w' = effects w @ es \<and> \<not> posts_unconfigured_buffer es"
  by (auto simp: destroy_popup_grab_def xdg_shell_popup_grab_from_seat_def post_def
      posts_unconfigured_buffer_def Let_def
      split: if_splits prod.splits option.splits nat.splits)

lemma destroy_no_unconfigured_buffer:
  assumes "xdg_surface_destroy mem w sid = Inr w'"
  shows "\<exists>es. effects w' = effects w @ es \<and> \<not> posts_unconfigured_buffer es"
proof -
  from assms obtain s where s: "surfaces w sid = Some s"
    by (auto simp: xdg_surface_destroy_def split: option.splits)
  define w1 where
    "w1 = (if configure_idle s then post Event_source_remove (post (Signal_emit Destroy) w)
           else post (Signal_emit Destroy) w)"
  have w1: "\<exists>es. effects w1 = effects w @ es \<and> \<not> posts_unconfigured_buffer es"
    by (simp add: w1_def post_def posts_unconfigured_buffer_def)
  show ?thesis
  proof (cases "role s = WLR_XDG_SURFACE_ROLE_POPUP")
    case False
    with assms s have "w' = unlink_surface w1 sid (client s)"
      by (simp add: xdg_surface_destroy_def Let_def w1_def)
    with w1 show ?thesis
      by (simp add: unlink_surface_fields)
  next
    case True
    show ?thesis
    proof (cases "seat (popup_state s)")
      case None
      with True assms s
      have "w' = unlink_surface (unlink_popup w1 sid (parent (popup_state s))) sid (client s)"
        by (simp add: xdg_surface_destroy_def Let_def w1_def)
      with w1 show ?thesis
        by (simp add: unlink_surface_fields unlink_popup_fields)
    next
      case (Some st)
      with True assms s obtain w2 where w2: "destroy_popup_grab mem w1 sid st = Inr w2"
        and w': "w' = unlink_surface (unlink_popup w2 sid (parent (popup_state s))) sid (client s)"
        by (auto simp: xdg_surface_destroy_def Let_def w1_def split: sum.splits)
      from destroy_popup_grab_no_unconfigured_buffer [OF w2] w1
      obtain es1 es2 where "effects w1 = effects w @ es1" "\<not> posts_unconfigured_buffer es1"
        "effects w2 = effects w1 @ es2" "\<not> posts_unconfigured_buffer es2"
        by blast
      then have "effects w2 = effects w @ (es1 @ es2) \<and> \<not> posts_unconfigured_buffer (es1 @ es2)"
        by (simp add: posts_unconfigured_buffer_def)
      with w' show ?thesis
        by (auto simp: unlink_surface_fields unlink_popup_fields simp del: append_assoc)
    qed
  qed
qed

lemma ping_no_unconfigured_buffer:
  "wlr_xdg_surface_ping w sid = Inr w' \<Longrightarrow>
   \<exists>es. effects w' = effects w @ es \<and> \<not> posts_unconfigured_buffer es"
  by (auto simp: wlr_xdg_surface_ping_def posts_unconfigured_buffer_def Let_def
      split: if_splits option.splits)

lemma state_requests_no_unconfigured_buffer:
  "\<not> posts_unconfigured_buffer (fst (xdg_toplevel_protocol_set_maximized s))"
  "\<not> posts_unconfigured_buffer (fst (xdg_toplevel_protocol_unset_maximized s))"
  "\<not> posts_unconfigured_buffer (fst (xdg_toplevel_protocol_set_fullscreen s output))"
  "\<not> posts_unconfigured_buffer (fst (xdg_toplevel_protocol_unset_fullscreen s))"
  "\<not> posts_unconfigured_buffer (fst (xdg_toplevel_protocol_set_max_size s a b))"
  "\<not> posts_unconfigured_buffer (fst (xdg_toplevel_protocol_set_min_size s a b))"
  "\<not> posts_unconfigured_buffer (fst (xdg_toplevel_protocol_set_minimized s))"
  by (simp_all add: posts_unconfigured_buffer_def
      xdg_toplevel_protocol_set_maximized_def xdg_toplevel_protocol_unset_maximized_def
      xdg_toplevel_protocol_set_fullscreen_def xdg_toplevel_protocol_unset_fullscreen_def
      xdg_toplevel_protocol_set_max_size_def xdg_toplevel_protocol_set_min_size_def
      xdg_toplevel_protocol_set_minimized_def)

text \<open>
  Claim C5.  The handlers that see a buffer being attached are the commit handler and
  the creation of an \<^verbatim>\<open>xdg_surface\<close>.  A commit posts \<^verbatim>\<open>UNCONFIGURED_BUFFER\<close> exactly
  when the underlying surface has a buffer and \<^verbatim>\<open>configured\<close> is false; it is then the
  only effect, and the surface and the display's serial are as before.  A creation whose
  allocations succeed posts \<^verbatim>\<open>UNCONFIGURED_BUFFER\<close> exactly when the underlying surface
  has a buffer; the shell is then as before, with no surface added.  No other handler
  posts this error: not the acknowledgement, the scheduling or the sending of a configure,
  not a state request of a toplevel, not a popup grab, a destruction or a ping.
\<close>

theorem unconfigured_buffer_rejected:
  assumes "4 \<le> mem" and "clients w cid = Some c"
  shows "(\<exists>d' es s'. handle_wlr_surface_committed d s = Inr (d', es, s')
            \<and> (posts_unconfigured_buffer es \<longleftrightarrow> has_buffer (surface s) \<and> \<not> configured s)
            \<and> (has_buffer (surface s) \<and> \<not> configured s \<longrightarrow>
                 d' = d \<and> s' = s
                 \<and> es = [Post_error Xdg_surface_resource XDG_SURFACE_ERROR_UNCONFIGURED_BUFFER]))
         \<and> (\<exists>w' es. xdg_shell_get_xdg_surface mem w cid sid base = Inr w'
               \<and> effects w' = effects w @ es
               \<and> (posts_unconfigured_buffer es \<longleftrightarrow> has_buffer base)
               \<and> (has_buffer base \<longrightarrow>
                    w' = w\<lparr>effects := effects w @
                           [Post_error Wl_surface_resource XDG_SURFACE_ERROR_UNCONFIGURED_BUFFER]\<rparr>)
               \<and> (\<not> has_buffer base \<longrightarrow>
                    surfaces w' sid = Some (calloc_xdg_surface cid base)))
         \<and> (\<forall>es s'. xdg_surface_ack_configure s n = Inr (es, s')
                \<longrightarrow> \<not> posts_unconfigured_buffer es)
         \<and> (\<forall>r d' es s'. wlr_xdg_surface_schedule_configure d s = Inr (r, d', es, s')
                \<longrightarrow> \<not> posts_unconfigured_buffer es)
         \<and> (\<forall>es s'. wlr_xdg_surface_send_configure mem s = Inr (es, s')
                \<longrightarrow> \<not> posts_unconfigured_buffer es)
         \<and> \<not> posts_unconfigured_buffer (fst (xdg_toplevel_protocol_set_maximized s))
         \<and> \<not> posts_unconfigured_buffer (fst (xdg_toplevel_protocol_unset_maximized s))
         \<and> \<not> posts_unconfigured_buffer (fst (xdg_toplevel_protocol_set_fullscreen s output))
         \<and> \<not> posts_unconfigured_buffer (fst (xdg_toplevel_protocol_unset_fullscreen s))
         \<and> \<not> posts_unconfigured_buffer (fst (xdg_toplevel_protocol_set_max_size s a b))
         \<and> \<not> posts_unconfigured_buffer (fst (xdg_toplevel_protocol_set_min_size s a b))
         \<and> \<not> posts_unconfigured_buffer (fst (xdg_toplevel_protocol_set_minimized s))
         \<and> (\<forall>w'. xdg_popup_protocol_grab mem w sid st n = Inr w'
                \<longrightarrow> (\<exists>es. effects w' = effects w @ es \<and> \<not> posts_unconfigured_buffer es))
         \<and> (\<forall>w'. xdg_surface_destroy mem w sid = Inr w'
                \<longrightarrow> (\<exists>es. effects w' = effects w @ es \<and> \<not> posts_unconfigured_buffer es))
         \<and> (\<forall>w'. wlr_xdg_surface_ping w sid = Inr w'
                \<longrightarrow> (\<exists>es. effects w' = effects w @ es \<and> \<not> posts_unconfigured_buffer es))"
proof -
  have commit: "\<exists>d' es s'. handle_wlr_surface_committed d s = Inr (d', es, s')
            \<and> (posts_unconfigured_buffer es \<longleftrightarrow> has_buffer (surface s) \<and> \<not> configured s)
            \<and> (has_buffer (surface s) \<and> \<not> configured s \<longrightarrow>
                 d' = d \<and> s' = s
                 \<and> es = [Post_error Xdg_surface_resource XDG_SURFACE_ERROR_UNCONFIGURED_BUFFER])"
  proof (cases "has_buffer (surface s) \<and> \<not> configured s")
    case True
    then show ?thesis
      by (simp add: handle_wlr_surface_committed_def posts_unconfigured_buffer_def)
  next
    case False
    from handle_committed_accepts [OF False, of d] False show ?thesis
      by blast
  qed
  have create: "\<exists>w' es. xdg_shell_get_xdg_surface mem w cid sid base = Inr w'
               \<and> effects w' = effects w @ es
               \<and> (posts_unconfigured_buffer es \<longleftrightarrow> has_buffer base)
               \<and> (has_buffer base \<longrightarrow>
                    w' = w\<lparr>effects := effects w @
                           [Post_error Wl_surface_resource XDG_SURFACE_ERROR_UNCONFIGURED_BUFFER]\<rparr>)
               \<and> (\<not> has_buffer base \<longrightarrow>
                    surfaces w' sid = Some (calloc_xdg_surface cid base))"
  proof (cases "has_buffer base")
    case True
    with assms show ?thesis
      by (simp add: xdg_shell_get_xdg_surface_def post_def posts_unconfigured_buffer_def)
  next
    case False
    with assms have "xdg_shell_get_xdg_surface mem w cid sid base =
        Inr (w\<lparr>surfaces := (surfaces w)(sid \<mapsto> calloc_xdg_surface cid base),
               clients := (clients w)(cid \<mapsto> c\<lparr>client_surfaces := sid # client_surfaces c\<rparr>)\<rparr>)"
      by (simp add: xdg_shell_get_xdg_surface_def)
    with False show ?thesis
      by (simp add: posts_unconfigured_buffer_def)
  qed
  have ack: "\<forall>es s'. xdg_surface_ack_configure s n = Inr (es, s')
                \<longrightarrow> \<not> posts_unconfigured_buffer es"
    using ack_configure_no_unconfigured_buffer by blast
  have schedule: "\<forall>r d' es s'. wlr_xdg_surface_schedule_configure d s = Inr (r, d', es, s')
                \<longrightarrow> \<not> posts_unconfigured_buffer es"
    using schedule_configure_no_unconfigured_buffer by blast
  have send: "\<forall>es s'. wlr_xdg_surface_send_configure mem s = Inr (es, s')
                \<longrightarrow> \<not> posts_unconfigured_buffer es"
    using send_configure_no_unconfigured_buffer by blast
  have grab: "\<forall>w'. xdg_popup_protocol_grab mem w sid st n = Inr w'
                \<longrightarrow> (\<exists>es. effects w' = effects w @ es \<and> \<not> posts_unconfigured_buffer es)"
    using grab_no_unconfigured_buffer by blast
  have destroy: "\<forall>w'. xdg_surface_destroy mem w sid = Inr w'
                \<longrightarrow> (\<exists>es. effects w' = effects w @ es \<and> \<not> posts_unconfigured_buffer es)"
    using destroy_no_unconfigured_buffer by blast
  have ping: "\<forall>w'. wlr_xdg_surface_ping w sid = Inr w'
                \<longrightarrow> (\<exists>es. effects w' = effects w @ es \<and> \<not> posts_unconfigured_buffer es)"
    using ping_no_unconfigured_buffer by blast
  from commit create ack schedule send state_requests_no_unconfigured_buffer
    grab destroy ping
  show ?thesis by (intro conjI)
qed

theorem unconfigured_buffer_rejected_witness:
  "handle_wlr_surface_committed 5
     (example_toplevel\<lparr>surface := \<lparr>has_buffer = True, current_width = 64, current_height = 64\<rparr>\<rparr>)
   = Inr (5, [Post_error Xdg_surface_resource XDG_SURFACE_ERROR_UNCONFIGURED_BUFFER],
          example_toplevel\<lparr>surface := \<lparr>has_buffer = True, current_width = 64, current_height = 64\<rparr>\<rparr>)
   \<and> xdg_shell_get_xdg_surface 4 example_world 0 1
       \<lparr>has_buffer = True, current_width = 64, current_height = 64\<rparr>
     = Inr (example_world\<lparr>effects :=
              [Post_error Wl_surface_resource XDG_SURFACE_ERROR_UNCONFIGURED_BUFFER]\<rparr>)"
  using unconfigured_buffer_rejected
          [of 4 example_world 0 example_client 5
              "example_toplevel\<lparr>surface :=
                 \<lparr>has_buffer = True, current_width = 64, current_height = 64\<rparr>\<rparr>"
              1 "\<lparr>has_buffer = True, current_width = 64, current_height = 64\<rparr>",
           THEN conjunct1]
        unconfigured_buffer_rejected
          [of 4 example_world 0 example_client 5
              "example_toplevel\<lparr>surface :=
                 \<lparr>has_buffer = True, current_width = 64, current_height = 64\<rparr>\<rparr>"
              1 "\<lparr>has_buffer = True, current_width = 64, current_height = 64\<rparr>",
           THEN conjunct2, THEN conjunct1]
  by (auto simp: example_world_def example_toplevel_def calloc_xdg_surface_def)

end
